theory Spec2Isabelle
  imports Complex_Main
begin

section \<open>Python values and exceptions\<close>

text \<open>
  The module \<^verbatim>\<open>becquerel/tools/isotope.py\<close> is embedded function by function.
  Every \<^verbatim>\<open>raise\<close> of the source is a value \<open>Inl e\<close> of the result type
  \<open>error + 'a\<close>; the string carried by an exception is the constant head of the
  message of the source (the formatted arguments are left out).

  Conventions of the embedding:
  \<^item> Python strings are ASCII character lists.
  \<^item> Python floats are idealised as real numbers: rounding, overflow and NaN are not
    represented. The one non-finite value that the module relies on, the infinite
    halflife of a stable isotope, is a constructor of its own.
  \<^item> A \<^verbatim>\<open>datetime\<close> is a point of the time line, measured in seconds from
    2017-01-01 00:00:00, so that \<^verbatim>\<open>(t1 - t0).total_seconds()\<close> is \<open>t1 - t0\<close>. Where the
    module builds a new \<^verbatim>\<open>datetime\<close>, the embedding rounds to whole microseconds and
    checks the range of \<^verbatim>\<open>timedelta\<close> and of \<^verbatim>\<open>datetime\<close> as Python does.
\<close>

datatype error =
    IsotopeError string
  | ElementError string
  | ValueError string
  | TypeError string
  | AttributeError string
  | IndexError
  | ZeroDivisionError
  | OverflowError
  | NotImplementedError string
  | NonFiniteFloat

text \<open>
  \<open>NonFiniteFloat\<close> is not a Python exception: it marks the places where numpy would
  return \<^verbatim>\<open>inf\<close> or \<^verbatim>\<open>nan\<close> (with a warning) as the value of a division, which the
  real numbers cannot represent.
\<close>

datatype pyval = PyNone | PyInt int | PyFloat real | PyStr string

section \<open>String primitives\<close>

definition isdigit_char :: "char \<Rightarrow> bool" where
  "isdigit_char c = (c \<in> set ''0123456789'')"

definition isupper_char :: "char \<Rightarrow> bool" where
  "isupper_char c = (c \<in> set ''ABCDEFGHIJKLMNOPQRSTUVWXYZ'')"

definition islower_char :: "char \<Rightarrow> bool" where
  "islower_char c = (c \<in> set ''abcdefghijklmnopqrstuvwxyz'')"

definition isalpha_char :: "char \<Rightarrow> bool" where
  "isalpha_char c = (isupper_char c \<or> islower_char c)"

text \<open>\<^verbatim>\<open>s.isalpha()\<close> and \<^verbatim>\<open>s.isdigit()\<close>: false on the empty string.\<close>

definition str_isalpha :: "string \<Rightarrow> bool" where
  "str_isalpha s = (s \<noteq> [] \<and> list_all isalpha_char s)"

definition str_isdigit :: "string \<Rightarrow> bool" where
  "str_isdigit s = (s \<noteq> [] \<and> list_all isdigit_char s)"

definition lower_char :: "char \<Rightarrow> char" where
  "lower_char c =
     (case map_of (zip ''ABCDEFGHIJKLMNOPQRSTUVWXYZ'' ''abcdefghijklmnopqrstuvwxyz'') c of
        Some d \<Rightarrow> d
      | None \<Rightarrow> c)"

definition lower :: "string \<Rightarrow> string" where
  "lower s = map lower_char s"

text \<open>\<^verbatim>\<open>s.split(c)\<close> for a one-character separator: never the empty list.\<close>

fun split_on :: "char \<Rightarrow> string \<Rightarrow> string list" where
  "split_on c [] = ['''']"
| "split_on c (x # xs) =
     (if x = c then [] # split_on c xs
      else (let ts = split_on c xs in (x # hd ts) # tl ts))"

text \<open>\<^verbatim>\<open>s[0]\<close>: IndexError on the empty string.\<close>

definition char0 :: "string \<Rightarrow> error + char" where
  "char0 s = (case s of [] \<Rightarrow> Inl IndexError | c # _ \<Rightarrow> Inr c)"

definition digit_val :: "char \<Rightarrow> nat" where
  "digit_val c =
     (case map_of (zip ''0123456789'' [0, 1, 2, 3, 4, 5, 6, 7, 8, 9]) c of
        Some d \<Rightarrow> d
      | None \<Rightarrow> 0)"

definition digits_val :: "string \<Rightarrow> nat" where
  "digits_val s = foldl (\<lambda>a c. 10 * a + digit_val c) 0 s"

text \<open>
  \<^verbatim>\<open>int(s)\<close> on a string (Python 3): surrounding whitespace is stripped, one sign is
  allowed, and the digits may be grouped by single underscores. \<open>None\<close> is the
  \<^verbatim>\<open>ValueError\<close> of the source.
\<close>

definition isspace_char :: "char \<Rightarrow> bool" where
  "isspace_char c =
     (c \<in> {CHR '' '', CHR 0x09, CHR 0x0A, CHR 0x0B, CHR 0x0C, CHR 0x0D,
            CHR 0x1C, CHR 0x1D, CHR 0x1E, CHR 0x1F})"

definition strip :: "string \<Rightarrow> string" where
  "strip s = rev (dropWhile isspace_char (rev (dropWhile isspace_char s)))"

fun digit_groups :: "string \<Rightarrow> bool" where
  "digit_groups [] = False"
| "digit_groups [c] = isdigit_char c"
| "digit_groups (c # d # r) =
     (isdigit_char c \<and> (if d = CHR ''_'' then digit_groups r else digit_groups (d # r)))"

definition int_of_digits :: "string \<Rightarrow> int option" where
  "int_of_digits s =
     (if digit_groups s then Some (int (digits_val (filter (\<lambda>c. c \<noteq> CHR ''_'') s)))
      else None)"

definition int_of_str :: "string \<Rightarrow> int option" where
  "int_of_str s =
     (case strip s of
        [] \<Rightarrow> None
      | c # r \<Rightarrow>
          if c = CHR ''-'' then map_option uminus (int_of_digits r)
          else if c = CHR ''+'' then int_of_digits r
          else int_of_digits (c # r))"

text \<open>\<^verbatim>\<open>'{}'.format(n)\<close> for a natural number.\<close>

fun str_of_nat :: "nat \<Rightarrow> string" where
  "str_of_nat n =
     (if n < 10 then [''0123456789'' ! n]
      else str_of_nat (n div 10) @ [''0123456789'' ! (n mod 10)])"

declare str_of_nat.simps [simp del]

section \<open>The element lookup\<close>

text \<open>
  \<^verbatim>\<open>element.Element\<close> is a collaborator of the module and its source is not part of
  it. The parser and the constructor take the lookup as a parameter: a function from
  an identifier to the element, \<open>None\<close> where the source raises
  \<^verbatim>\<open>ElementError\<close>. The atomic mass of an element is never read by the module and is
  left out of the record.
\<close>

record element =
  symbol :: string
  name :: string
  Z :: int

type_synonym element_lookup = "pyval \<Rightarrow> element option"

text \<open>
  Modelled from the spec: the Element lookup, whose source (\<^verbatim>\<open>element.py\<close>) is
  missing. The spec gives its contract: given a symbol, a name or an atomic number it
  returns the element or fails; symbols and names are matched without regard to
  case, and the symbol and the name that it returns are in mixed case (\<^verbatim>\<open>Hf\<close>,
  \<^verbatim>\<open>Hafnium\<close>). The table is the periodic table, written in lower case as the
  lookup compares it; an entry is the symbol and the name, and the atomic number is
  the position. It is used only to evaluate the parser and the constructor on
  concrete strings.
\<close>

definition element_table :: "(string \<times> string) list" where
  "element_table =
    [(''h'', ''hydrogen''), (''he'', ''helium''), (''li'', ''lithium''),
     (''be'', ''beryllium''), (''b'', ''boron''), (''c'', ''carbon''),
     (''n'', ''nitrogen''), (''o'', ''oxygen''), (''f'', ''fluorine''), (''ne'', ''neon''),
     (''na'', ''sodium''), (''mg'', ''magnesium''), (''al'', ''aluminum''),
     (''si'', ''silicon''), (''p'', ''phosphorus''), (''s'', ''sulfur''),
     (''cl'', ''chlorine''), (''ar'', ''argon''), (''k'', ''potassium''),
     (''ca'', ''calcium''), (''sc'', ''scandium''), (''ti'', ''titanium''),
     (''v'', ''vanadium''), (''cr'', ''chromium''), (''mn'', ''manganese''),
     (''fe'', ''iron''), (''co'', ''cobalt''), (''ni'', ''nickel''), (''cu'', ''copper''),
     (''zn'', ''zinc''), (''ga'', ''gallium''), (''ge'', ''germanium''),
     (''as'', ''arsenic''), (''se'', ''selenium''), (''br'', ''bromine''),
     (''kr'', ''krypton''), (''rb'', ''rubidium''), (''sr'', ''strontium''),
     (''y'', ''yttrium''), (''zr'', ''zirconium''), (''nb'', ''niobium''),
     (''mo'', ''molybdenum''), (''tc'', ''technetium''), (''ru'', ''ruthenium''),
     (''rh'', ''rhodium''), (''pd'', ''palladium''), (''ag'', ''silver''),
     (''cd'', ''cadmium''), (''in'', ''indium''), (''sn'', ''tin''),
     (''sb'', ''antimony''), (''te'', ''tellurium''), (''i'', ''iodine''),
     (''xe'', ''xenon''), (''cs'', ''cesium''), (''ba'', ''barium''),
     (''la'', ''lanthanum''), (''ce'', ''cerium''), (''pr'', ''praseodymium''),
     (''nd'', ''neodymium''), (''pm'', ''promethium''), (''sm'', ''samarium''),
     (''eu'', ''europium''), (''gd'', ''gadolinium''), (''tb'', ''terbium''),
     (''dy'', ''dysprosium''), (''ho'', ''holmium''), (''er'', ''erbium''),
     (''tm'', ''thulium''), (''yb'', ''ytterbium''), (''lu'', ''lutetium''),
     (''hf'', ''hafnium''), (''ta'', ''tantalum''), (''w'', ''tungsten''),
     (''re'', ''rhenium''), (''os'', ''osmium''), (''ir'', ''iridium''),
     (''pt'', ''platinum''), (''au'', ''gold''), (''hg'', ''mercury''),
     (''tl'', ''thallium''), (''pb'', ''lead''), (''bi'', ''bismuth''),
     (''po'', ''polonium''), (''at'', ''astatine''), (''rn'', ''radon''),
     (''fr'', ''francium''), (''ra'', ''radium''), (''ac'', ''actinium''),
     (''th'', ''thorium''), (''pa'', ''protactinium''), (''u'', ''uranium''),
     (''np'', ''neptunium''), (''pu'', ''plutonium''), (''am'', ''americium''),
     (''cm'', ''curium''), (''bk'', ''berkelium''), (''cf'', ''californium''),
     (''es'', ''einsteinium''), (''fm'', ''fermium''), (''md'', ''mendelevium''),
     (''no'', ''nobelium''), (''lr'', ''lawrencium''), (''rf'', ''rutherfordium''),
     (''db'', ''dubnium''), (''sg'', ''seaborgium''), (''bh'', ''bohrium''),
     (''hs'', ''hassium''), (''mt'', ''meitnerium''), (''ds'', ''darmstadtium''),
     (''rg'', ''roentgenium''), (''cn'', ''copernicium''), (''nh'', ''nihonium''),
     (''fl'', ''flerovium''), (''mc'', ''moscovium''), (''lv'', ''livermorium''),
     (''ts'', ''tennessine''), (''og'', ''oganesson'')]"

definition upper_char :: "char \<Rightarrow> char" where
  "upper_char c =
     (case map_of (zip ''abcdefghijklmnopqrstuvwxyz'' ''ABCDEFGHIJKLMNOPQRSTUVWXYZ'') c of
        Some d \<Rightarrow> d
      | None \<Rightarrow> c)"

definition capitalize :: "string \<Rightarrow> string" where
  "capitalize s = (case s of [] \<Rightarrow> [] | c # r \<Rightarrow> upper_char c # r)"

definition make_element :: "string \<times> string \<Rightarrow> int \<Rightarrow> element" where
  "make_element e z = \<lparr>symbol = capitalize (fst e), name = capitalize (snd e), Z = z\<rparr>"

fun find_symbol :: "string \<Rightarrow> int \<Rightarrow> (string \<times> string) list \<Rightarrow> element option" where
  "find_symbol k z [] = None"
| "find_symbol k z (e # es) =
     (if fst e = k then Some (make_element e z) else find_symbol k (z + 1) es)"

fun find_name :: "string \<Rightarrow> int \<Rightarrow> (string \<times> string) list \<Rightarrow> element option" where
  "find_name k z [] = None"
| "find_name k z (e # es) =
     (if snd e = k then Some (make_element e z) else find_name k (z + 1) es)"

fun find_Z :: "int \<Rightarrow> int \<Rightarrow> (string \<times> string) list \<Rightarrow> element option" where
  "find_Z n z [] = None"
| "find_Z n z (e # es) =
     (if z = n then Some (make_element e z) else find_Z n (z + 1) es)"

definition Element :: element_lookup where
  "Element arg =
     (case arg of
        PyStr s \<Rightarrow>
          (case find_symbol (lower s) 1 element_table of
             Some elem \<Rightarrow> Some elem
           | None \<Rightarrow> find_name (lower s) 1 element_table)
      | PyInt n \<Rightarrow> find_Z n 1 element_table
      | _ \<Rightarrow> None)"

section \<open>Parsing isotope strings\<close>

text \<open>
  \<^verbatim>\<open>_split_element_mass\<close>, the branch for a string with a hyphen. The conditions are
  evaluated in the order of the source, with the short circuit of \<^verbatim>\<open>and\<close>, so that
  \<^verbatim>\<open>tokens[1][0]\<close> and \<^verbatim>\<open>tokens[0][0]\<close> raise IndexError on an empty token exactly
  where the source reads them.
\<close>

definition split_hyphen :: "string \<Rightarrow> error + (string \<times> string)" where
  "split_hyphen arg =
     (let tokens = split_on (CHR ''-'') arg in
      if length tokens \<noteq> 2 then Inl (IsotopeError ''Too many hyphens in isotope string'')
      else
        let t0 = tokens ! 0; t1 = tokens ! 1 in
        case (if str_isalpha t0
              then (case char0 t1 of Inl e \<Rightarrow> Inl e | Inr c \<Rightarrow> Inr (isdigit_char c))
              else Inr False) of
          Inl e \<Rightarrow> Inl e
        | Inr True \<Rightarrow> Inr (t0, t1)
        | Inr False \<Rightarrow>
            (case (case char0 t0 of
                     Inl e \<Rightarrow> Inl e
                   | Inr c \<Rightarrow> Inr (isdigit_char c \<and> str_isalpha t1)) of
               Inl e \<Rightarrow> Inl e
             | Inr True \<Rightarrow> Inr (t1, t0)
             | Inr False \<Rightarrow> Inl (IsotopeError ''Could not find mass number for isotope'')))"

text \<open>
  The branch for a string without a hyphen. \<open>split_points\<close> is
  \<^verbatim>\<open>zip(part1, part2)\<close>: the suffix and the prefix at every cut \<open>1 \<le> j < len(arg)\<close>,
  both non-empty. \<open>candidates\<close> is the first loop; the two lists \<^verbatim>\<open>element_ids\<close> and
  \<^verbatim>\<open>mass_isomers\<close>, always appended to together and read through \<^verbatim>\<open>zip\<close>, are one
  list of pairs. What is stored for the element is \<^verbatim>\<open>elem.symbol\<close>, the symbol
  returned by the lookup, not the substring that was looked up.
\<close>

definition split_points :: "string \<Rightarrow> (string \<times> string) list" where
  "split_points arg = map (\<lambda>j. (drop j arg, take j arg)) [1..<length arg]"

fun candidates :: "element_lookup \<Rightarrow> (string \<times> string) list \<Rightarrow> (string \<times> string) list" where
  "candidates lookup [] = []"
| "candidates lookup ((p1, p2) # ps) =
     (if isdigit_char (hd p1) \<and> isalpha_char (hd p2) then
        (case lookup (PyStr p2) of
           None \<Rightarrow> candidates lookup ps
         | Some elem \<Rightarrow> (symbol elem, p1) # candidates lookup ps)
      else if isalpha_char (hd p1) \<and> isdigit_char (hd p2) then
        (case lookup (PyStr p1) of
           None \<Rightarrow> candidates lookup ps
         | Some elem \<Rightarrow> (symbol elem, p2) # candidates lookup ps)
      else candidates lookup ps)"

text \<open>
  The second loop: starting from the pair of empty strings, a candidate replaces
  the current choice when its element is strictly longer.
\<close>

fun choose_longest :: "(string \<times> string) list \<Rightarrow> string \<times> string \<Rightarrow> string \<times> string" where
  "choose_longest [] best = best"
| "choose_longest ((elem, mass) # cs) (element_id, mass_isomer) =
     (if length elem > length element_id then choose_longest cs (elem, mass)
      else choose_longest cs (element_id, mass_isomer))"

definition split_nohyphen :: "element_lookup \<Rightarrow> string \<Rightarrow> error + (string \<times> string)" where
  "split_nohyphen lookup arg =
     (let cs = candidates lookup (split_points arg) in
      if length cs = 0 then Inl (IsotopeError ''Could not find element for isotope'')
      else Inr (choose_longest cs ('''', '''')))"

definition split_element_mass :: "element_lookup \<Rightarrow> string \<Rightarrow> error + (string \<times> string)" where
  "split_element_mass lookup arg =
     (case (if CHR ''-'' \<in> set arg then split_hyphen arg else split_nohyphen lookup arg) of
        Inl e \<Rightarrow> Inl e
      | Inr (element_id, mass_isomer) \<Rightarrow>
          (case lookup (PyStr element_id) of
             None \<Rightarrow> Inl (IsotopeError ''Element name or symbol is invalid'')
           | Some elem \<Rightarrow> Inr (element_id, mass_isomer)))"

text \<open>\<^verbatim>\<open>_split_mass_isomer\<close>.\<close>

definition split_mass_isomer :: "string \<Rightarrow> error + (int \<times> string)" where
  "split_mass_isomer arg =
     (if CHR ''m'' \<in> set (lower arg) then
        (let tokens = split_on (CHR ''m'') (lower arg) in
         if length tokens \<noteq> 2 then Inl (IsotopeError ''Too many ms in mass number'')
         else
           case int_of_str (tokens ! 0) of
             None \<Rightarrow> Inl (IsotopeError ''Mass number cannot be converted to int'')
           | Some aa \<Rightarrow>
               if length (tokens ! 1) > 0 then
                 (if \<not> str_isdigit (tokens ! 1)
                  then Inl (IsotopeError ''Metastable level must be a number'')
                  else Inr (aa, ''m'' @ tokens ! 1))
               else Inr (aa, ''m''))
      else
        (case int_of_str arg of
           None \<Rightarrow> Inl (IsotopeError ''Mass number cannot be converted to int'')
         | Some aa \<Rightarrow> Inr (aa, '''')))"

definition parse_isotope :: "element_lookup \<Rightarrow> string \<Rightarrow> error + (string \<times> int \<times> string)" where
  "parse_isotope lookup arg =
     (case split_element_mass lookup arg of
        Inl e \<Rightarrow> Inl e
      | Inr (element_id, mass_isomer) \<Rightarrow>
          (case split_mass_isomer mass_isomer of
             Inl e \<Rightarrow> Inl e
           | Inr (mass_number, isomer_level) \<Rightarrow> Inr (element_id, mass_number, isomer_level)))"

section \<open>Isotopes\<close>

text \<open>
  An \<^verbatim>\<open>Isotope\<close> object. The constructor sets the element fields and \<open>A\<close>, \<open>m\<close>,
  \<open>M\<close>, \<open>N\<close>. The class documents three more properties, \<^verbatim>\<open>halflife\<close>,
  \<^verbatim>\<open>decay_const\<close> and \<^verbatim>\<open>ng_cs\<close>, which no code of the module assigns: they are
  attributes that exist only once a caller has set them. An attribute that may be
  missing is an \<open>option\<close>, and reading \<open>None\<close> is the \<^verbatim>\<open>AttributeError\<close> of Python.
  \<open>iso_decay_coeff\<close> is the attribute \<^verbatim>\<open>decay_coeff\<close> that one branch of
  \<^verbatim>\<open>NeutronIrradiation.activate\<close> reads.
\<close>

datatype halflife = Finite real | Infinite

record isotope =
  iso_symbol :: string
  iso_name :: string
  iso_Z :: int
  iso_A :: int
  iso_m :: string
  iso_M :: int
  iso_N :: int
  iso_halflife :: "halflife option"
  iso_decay_const :: "real option"
  iso_decay_coeff :: "real option"

text \<open>\<^verbatim>\<open>int(arg)\<close> on a value; a float is truncated towards zero.\<close>

definition py_int :: "pyval \<Rightarrow> error + int" where
  "py_int v =
     (case v of
        PyInt n \<Rightarrow> Inr n
      | PyFloat r \<Rightarrow> Inr (if 0 \<le> r then \<lfloor>r\<rfloor> else \<lceil>r\<rceil>)
      | PyStr s \<Rightarrow>
          (case int_of_str s of
             None \<Rightarrow> Inl (ValueError ''invalid literal for int()'')
           | Some n \<Rightarrow> Inr n)
      | PyNone \<Rightarrow> Inl (TypeError ''int() argument must be a string or a number''))"

text \<open>\<^verbatim>\<open>Isotope._init_A\<close>: only the \<^verbatim>\<open>ValueError\<close> of \<^verbatim>\<open>int\<close> is caught.\<close>

definition init_A :: "pyval \<Rightarrow> error + int" where
  "init_A arg =
     (case py_int arg of
        Inl (ValueError msg) \<Rightarrow> Inl (IsotopeError ''Mass number cannot be converted to integer'')
      | Inl e \<Rightarrow> Inl e
      | Inr a \<Rightarrow> if a < 1 then Inl (IsotopeError ''Mass number must be >= 1'') else Inr a)"

text \<open>\<^verbatim>\<open>Isotope._init_m\<close>: the result is the pair \<open>(m, M)\<close>.\<close>

definition init_m :: "pyval \<Rightarrow> error + (string \<times> int)" where
  "init_m arg =
     (if arg = PyStr '''' \<or> arg = PyNone \<or> arg = PyInt 0 \<or> arg = PyFloat 0 then Inr ('''', 0)
      else
        case arg of
          PyInt n \<Rightarrow>
            if n = 1 then Inr (''m'', 1)
            else if n \<ge> 2 then Inr (''m'' @ str_of_nat (nat n), n)
            else Inl (IsotopeError ''Metastable level must be >= 0'')
        | PyStr s \<Rightarrow>
            (let m = lower s in
             if hd m \<noteq> CHR ''m'' then Inl (IsotopeError ''Metastable level must start with m'')
             else if length m > 1 then
               (if \<not> str_isdigit (tl m) then Inl (IsotopeError ''Metastable level must be numeric'')
                else Inr (m, int (digits_val (tl m))))
             else Inr (m, 1))
        | _ \<Rightarrow> Inl (IsotopeError ''Metastable level must be integer or string''))"

text \<open>
  \<^verbatim>\<open>Isotope.__init__(*args)\<close>. \<open>finish\<close> is the end of the constructor, shared by
  both branches: the neutron number and its check. The attributes of the element
  are set by the constructor of the base class, here the lookup.
\<close>

definition finish :: "element \<Rightarrow> int \<Rightarrow> string \<times> int \<Rightarrow> error + isotope" where
  "finish elem a mM =
     (if a - Z elem < 0 then Inl (IsotopeError ''Neutron number N cannot be negative'')
      else Inr \<lparr>iso_symbol = symbol elem, iso_name = name elem, iso_Z = Z elem, iso_A = a,
                iso_m = fst mM, iso_M = snd mM, iso_N = a - Z elem,
                iso_halflife = None, iso_decay_const = None, iso_decay_coeff = None\<rparr>)"

definition Isotope :: "element_lookup \<Rightarrow> pyval list \<Rightarrow> error + isotope" where
  "Isotope lookup args =
     (if length args = 1 then
        (case args ! 0 of
           PyStr s \<Rightarrow>
             (case parse_isotope lookup s of
                Inl e \<Rightarrow> Inl e
              | Inr (symb, aa, mm) \<Rightarrow>
                  (case lookup (PyStr symb) of
                     None \<Rightarrow> Inl (ElementError ''Unknown element symbol, name, or Z'')
                   | Some elem \<Rightarrow>
                       (case init_A (PyInt aa) of
                          Inl e \<Rightarrow> Inl e
                        | Inr a \<Rightarrow>
                            (case init_m (PyStr mm) of
                               Inl e \<Rightarrow> Inl e
                             | Inr mM \<Rightarrow> finish elem a mM))))
         | _ \<Rightarrow> Inl (IsotopeError ''Single argument must be a string''))
      else if length args = 2 \<or> length args = 3 then
        (case lookup (args ! 0) of
           None \<Rightarrow> Inl (IsotopeError ''Unable to create Isotope'')
         | Some elem \<Rightarrow>
             (case init_A (args ! 1) of
                Inl e \<Rightarrow> Inl e
              | Inr a \<Rightarrow>
                  if length args = 3 then
                    (case init_m (args ! 2) of
                       Inl e \<Rightarrow> Inl e
                     | Inr mM \<Rightarrow> finish elem a mM)
                  else finish elem a ('''', 0)))
      else Inl (IsotopeError ''One, two, or three arguments required''))"

text \<open>
  The encoding rule of the isomer code, in the words of the spec's data model: the
  code is empty for level 0, \<^verbatim>\<open>m\<close> for level 1 and \<^verbatim>\<open>m\<close> followed by the level for a
  level of 2 or more. It is the rule that the claim on the representation invariant
  compares the constructor with; no function of the source is embedded in it.
\<close>

definition isomer_code_ok :: "string \<Rightarrow> int \<Rightarrow> bool" where
  "isomer_code_ok m_code level =
     (if level = 0 then m_code = []
      else if level = 1 then m_code = ''m''
      else 2 \<le> level \<and> m_code = ''m'' @ str_of_nat (nat level))"

text \<open>
  Modelled from the spec: the relation between the two decay attributes of an
  isotope, which no code of the module assigns. The spec gives it in its data model:
  the decay constant is \<open>ln 2 / halflife\<close>, and 0 for the infinite halflife of a
  stable isotope.
\<close>

definition decay_data_ok :: "isotope \<Rightarrow> bool" where
  "decay_data_ok isot =
     (case (iso_halflife isot, iso_decay_const isot) of
        (Some (Finite h), Some lam) \<Rightarrow> 0 < h \<and> lam = ln 2 / h
      | (Some Infinite, Some lam) \<Rightarrow> lam = 0
      | _ \<Rightarrow> False)"

section \<open>Dates\<close>

text \<open>
  A date argument of a method is \<^verbatim>\<open>None\<close>, a string or a native \<^verbatim>\<open>datetime\<close>.

  Modelled from the spec: \<^verbatim>\<open>utils.handle_datetime\<close>, whose source is missing. The
  spec gives its contract: it accepts date strings or native date-time values and
  returns a canonical date-time value, or fails if unparseable. The parser of date
  strings is a parameter. \<^verbatim>\<open>None\<close> is returned as it is when the call allows it
  (\<^verbatim>\<open>allow_none=True\<close> in the source) and is an error otherwise.
\<close>

type_synonym datetime = real

datatype date_arg = NoDate | DateStr string | DateTime datetime

type_synonym date_parser = "string \<Rightarrow> datetime option"

definition handle_datetime :: "date_parser \<Rightarrow> bool \<Rightarrow> date_arg \<Rightarrow> error + datetime option" where
  "handle_datetime parse allow_none arg =
     (case arg of
        DateTime t \<Rightarrow> Inr (Some t)
      | DateStr s \<Rightarrow>
          (case parse s of
             Some t \<Rightarrow> Inr (Some t)
           | None \<Rightarrow> Inl (ValueError ''Unknown string format''))
      | NoDate \<Rightarrow> if allow_none then Inr None else Inl (TypeError ''Unknown type for datetime arg''))"

text \<open>
  \<^verbatim>\<open>(a - b).total_seconds()\<close> on the raw arguments of a method: defined for two native
  values only; a string or \<^verbatim>\<open>None\<close> has no subtraction.
\<close>

definition raw_seconds :: "date_arg \<Rightarrow> date_arg \<Rightarrow> error + real" where
  "raw_seconds a b =
     (case (a, b) of
        (DateTime s, DateTime t) \<Rightarrow> Inr (s - t)
      | _ \<Rightarrow> Inl (TypeError ''unsupported operand type(s) for -''))"

text \<open>
  Building a new \<^verbatim>\<open>datetime\<close>. The values that a \<^verbatim>\<open>datetime\<close> can hold are the whole
  microseconds from 0001-01-01 00:00:00 to 9999-12-31 23:59:59.999999; on the time
  line of the embedding, whose origin is 2017-01-01 00:00:00, these are the bounds
  \<open>datetime_min\<close> and \<open>datetime_max\<close>.

  \<^verbatim>\<open>datetime.timedelta(seconds=x)\<close> rounds \<open>x\<close> to a whole number of microseconds,
  a tie going to the even neighbour, and raises OverflowError when the number of
  whole days of the result has a magnitude above 999999999. A \<open>timedelta\<close> is that
  number of microseconds. \<^verbatim>\<open>d + delta\<close> raises OverflowError when the sum is not a
  value that a \<^verbatim>\<open>datetime\<close> can hold.
\<close>

definition datetime_min :: datetime where
  "datetime_min = - 63618825600"

definition datetime_max :: datetime where
  "datetime_max = 251919072000 - 1 / 10 ^ 6"

definition round_half_even :: "real \<Rightarrow> int" where
  "round_half_even x =
     (let f = \<lfloor>x\<rfloor> in
      if x - of_int f < 1 / 2 then f
      else if 1 / 2 < x - of_int f then f + 1
      else if even f then f else f + 1)"

type_synonym timedelta = int

definition timedelta_seconds :: "real \<Rightarrow> error + timedelta" where
  "timedelta_seconds x =
     (let us = round_half_even (x * 10 ^ 6); days = us div (86400 * 10 ^ 6) in
      if days < - 999999999 \<or> 999999999 < days then Inl OverflowError else Inr us)"

definition datetime_add :: "datetime \<Rightarrow> timedelta \<Rightarrow> error + datetime" where
  "datetime_add d delta =
     (let r = d + of_int delta / 10 ^ 6 in
      if r < datetime_min \<or> datetime_max < r then Inl OverflowError else Inr r)"

section \<open>Quantities of an isotope\<close>

definition UCI_TO_BQ :: real where
  "UCI_TO_BQ = 37000"

definition N_AV :: real where
  "N_AV = 6022141 * 10 ^ 17"

record isotope_quantity =
  isotope :: isotope
  halflife :: halflife
  decay_const :: real
  ref_date :: datetime
  creation_date :: bool
  ref_atoms :: real

text \<open>
  The keyword arguments are a dictionary from the keyword to a number;
  \<^verbatim>\<open>float(kwargs[k])\<close> is the number itself.
\<close>

type_synonym kwargs = "string \<rightharpoonup> real"

definition check_positive_qty :: "real \<Rightarrow> error + real" where
  "check_positive_qty val =
     (if val < 0 then Inl (ValueError ''Mass or activity must be a positive quantity'')
      else Inr val)"

text \<open>
  \<^verbatim>\<open>IsotopeQuantity._atoms_from_kwargs\<close> reads \<^verbatim>\<open>self.isotope.A\<close> and
  \<^verbatim>\<open>self.decay_const\<close>; they are its first two arguments, since the constructor
  calls it before \<^verbatim>\<open>ref_atoms\<close> exists. The division by the mass number is a
  division of Python floats and raises on zero.
\<close>

definition atoms_from_kwargs :: "isotope \<Rightarrow> real \<Rightarrow> kwargs \<Rightarrow> error + real" where
  "atoms_from_kwargs isot dc kw =
     (if ''atoms'' \<in> dom kw then check_positive_qty (the (kw ''atoms''))
      else if ''g'' \<in> dom kw then
        (case check_positive_qty (the (kw ''g'')) of
           Inl e \<Rightarrow> Inl e
         | Inr v \<Rightarrow>
             if iso_A isot = 0 then Inl ZeroDivisionError
             else Inr (v / real_of_int (iso_A isot) * N_AV))
      else if ''bq'' \<in> dom kw \<and> dc > 0 then
        (case check_positive_qty (the (kw ''bq'')) of
           Inl e \<Rightarrow> Inl e
         | Inr v \<Rightarrow> Inr (v / dc))
      else if ''uci'' \<in> dom kw \<and> dc > 0 then
        (case check_positive_qty (the (kw ''uci'')) of
           Inl e \<Rightarrow> Inl e
         | Inr v \<Rightarrow> Inr (v * UCI_TO_BQ / dc))
      else if ''bq'' \<in> dom kw \<or> ''uci'' \<in> dom kw then
        Inl (IsotopeError ''Cannot initialize a stable IsotopeQuantity from activity'')
      else Inl (IsotopeError ''Missing arg for isotope activity''))"

text \<open>
  \<^verbatim>\<open>IsotopeQuantity.__init__\<close>: \<^verbatim>\<open>_init_isotope\<close> (the two attributes that a caller
  must have set on the isotope), \<^verbatim>\<open>_init_date\<close> (\<open>now\<close> is the reading of the clock,
  used when no date is given), the flag, and the quantity.
\<close>

definition IsotopeQuantity ::
  "date_parser \<Rightarrow> datetime \<Rightarrow> isotope \<Rightarrow> date_arg \<Rightarrow> bool \<Rightarrow> kwargs \<Rightarrow> error + isotope_quantity" where
  "IsotopeQuantity parse now isot date cdate kw =
     (case iso_halflife isot of
        None \<Rightarrow> Inl (AttributeError ''halflife'')
      | Some hl \<Rightarrow>
          (case iso_decay_const isot of
             None \<Rightarrow> Inl (AttributeError ''decay_const'')
           | Some dc \<Rightarrow>
               (case handle_datetime parse True date of
                  Inl e \<Rightarrow> Inl e
                | Inr d \<Rightarrow>
                    (case atoms_from_kwargs isot dc kw of
                       Inl e \<Rightarrow> Inl e
                     | Inr n \<Rightarrow>
                         Inr \<lparr>isotope = isot, halflife = hl, decay_const = dc,
                              ref_date = (case d of None \<Rightarrow> now | Some t \<Rightarrow> t),
                              creation_date = cdate, ref_atoms = n\<rparr>))))"

text \<open>
  \<^verbatim>\<open>atoms_at\<close>. The exponent \<^verbatim>\<open>-dt / self.halflife\<close> is a division of Python floats:
  it raises on a zero halflife and is zero on an infinite one.
\<close>

definition decay_exponent :: "real \<Rightarrow> halflife \<Rightarrow> error + real" where
  "decay_exponent dt hl =
     (case hl of
        Finite h \<Rightarrow> if h = 0 then Inl ZeroDivisionError else Inr (- dt / h)
      | Infinite \<Rightarrow> Inr 0)"

definition atoms_at :: "date_parser \<Rightarrow> isotope_quantity \<Rightarrow> date_arg \<Rightarrow> error + real" where
  "atoms_at parse q date =
     (case handle_datetime parse False date of
        Inl e \<Rightarrow> Inl e
      | Inr None \<Rightarrow> Inl (TypeError ''unsupported operand type(s) for -'')
      | Inr (Some t1) \<Rightarrow>
          (let dt = t1 - ref_date q in
           if dt < 0 \<and> creation_date q then
             Inl (IsotopeError ''The source represented by this IsotopeQuantity was created at'')
           else
             case decay_exponent dt (halflife q) of
               Inl e \<Rightarrow> Inl e
             | Inr x \<Rightarrow> Inr (ref_atoms q * 2 powr x)))"

definition bq_at :: "date_parser \<Rightarrow> isotope_quantity \<Rightarrow> date_arg \<Rightarrow> error + real" where
  "bq_at parse q date =
     (case atoms_at parse q date of Inl e \<Rightarrow> Inl e | Inr n \<Rightarrow> Inr (n * decay_const q))"

definition uci_at :: "date_parser \<Rightarrow> isotope_quantity \<Rightarrow> date_arg \<Rightarrow> error + real" where
  "uci_at parse q date =
     (case bq_at parse q date of Inl e \<Rightarrow> Inl e | Inr b \<Rightarrow> Inr (b / UCI_TO_BQ))"

definition g_at :: "date_parser \<Rightarrow> isotope_quantity \<Rightarrow> date_arg \<Rightarrow> error + real" where
  "g_at parse q date =
     (case atoms_at parse q date of
        Inl e \<Rightarrow> Inl e
      | Inr n \<Rightarrow> Inr (n / N_AV * real_of_int (iso_A (isotope q))))"

text \<open>The interval methods; the left operand is evaluated first.\<close>

definition decays_from ::
  "date_parser \<Rightarrow> isotope_quantity \<Rightarrow> date_arg \<Rightarrow> date_arg \<Rightarrow> error + real" where
  "decays_from parse q start_time stop_time =
     (case atoms_at parse q start_time of
        Inl e \<Rightarrow> Inl e
      | Inr n0 \<Rightarrow>
          (case atoms_at parse q stop_time of
             Inl e \<Rightarrow> Inl e
           | Inr n1 \<Rightarrow> Inr (n0 - n1)))"

definition bq_from ::
  "date_parser \<Rightarrow> isotope_quantity \<Rightarrow> date_arg \<Rightarrow> date_arg \<Rightarrow> error + real" where
  "bq_from parse q start_time stop_time =
     (case decays_from parse q start_time stop_time of
        Inl e \<Rightarrow> Inl e
      | Inr d \<Rightarrow>
          (case raw_seconds stop_time start_time of
             Inl e \<Rightarrow> Inl e
           | Inr secs \<Rightarrow> if secs = 0 then Inl ZeroDivisionError else Inr (d / secs)))"

definition uci_from ::
  "date_parser \<Rightarrow> isotope_quantity \<Rightarrow> date_arg \<Rightarrow> date_arg \<Rightarrow> error + real" where
  "uci_from parse q start_time stop_time =
     (case bq_from parse q start_time stop_time of
        Inl e \<Rightarrow> Inl e
      | Inr b \<Rightarrow> Inr (b / UCI_TO_BQ))"

text \<open>
  \<^verbatim>\<open>time_when\<close>. The result is \<open>Inr None\<close> for the \<^verbatim>\<open>None\<close> of the source. The ratio
  is a division of Python floats. \<^verbatim>\<open>np.log2\<close> is the logarithm on a positive ratio;
  on a zero ratio it is minus infinity and on a negative one NaN, and the branches
  below follow the source from there: an infinite \<open>dt\<close> is negative or not by its
  sign, \<^verbatim>\<open>timedelta\<close> raises OverflowError on an infinite number of seconds and
  ValueError on NaN. The date that is returned is built by
  \<^verbatim>\<open>self.ref_date + datetime.timedelta(seconds=dt)\<close>, with the rounding and the two
  range checks of these operations.
\<close>

definition time_when :: "isotope_quantity \<Rightarrow> kwargs \<Rightarrow> error + datetime option" where
  "time_when q kw =
     (case halflife q of
        Infinite \<Rightarrow> Inl (IsotopeError ''Cannot calculate time_when for stable isotope'')
      | Finite h \<Rightarrow>
          (case atoms_from_kwargs (isotope q) (decay_const q) kw of
             Inl e \<Rightarrow> Inl e
           | Inr target \<Rightarrow>
               if ref_atoms q = 0 then Inl ZeroDivisionError
               else
                 (let ratio = target / ref_atoms q in
                  if ratio > 0 then
                    (let dt = - h * log 2 ratio in
                     if dt < 0 \<and> creation_date q then Inr None
                     else
                       (case timedelta_seconds dt of
                          Inl e \<Rightarrow> Inl e
                        | Inr delta \<Rightarrow>
                            (case datetime_add (ref_date q) delta of
                               Inl e \<Rightarrow> Inl e
                             | Inr t \<Rightarrow> Inr (Some t))))
                  else if ratio = 0 then
                    (if h = 0 then Inl (ValueError ''cannot convert float NaN to integer'')
                     else if h < 0 \<and> creation_date q then Inr None
                     else Inl OverflowError)
                  else Inl (ValueError ''cannot convert float NaN to integer''))))"

section \<open>Neutron irradiation\<close>

record neutron_irradiation =
  start_time :: datetime
  stop_time :: datetime
  duration :: real
  n_cm2 :: real
  n_cm2_s :: "real option"

text \<open>
  \<^verbatim>\<open>NeutronIrradiation.__init__\<close>. Both times are normalised without
  \<^verbatim>\<open>allow_none\<close>, so neither is \<^verbatim>\<open>None\<close> when they are compared.
\<close>

definition NeutronIrradiation ::
  "date_parser \<Rightarrow> date_arg \<Rightarrow> date_arg \<Rightarrow> real option \<Rightarrow> real option \<Rightarrow>
   error + neutron_irradiation" where
  "NeutronIrradiation parse start stop n n_s =
     (case handle_datetime parse False start of
        Inl e \<Rightarrow> Inl e
      | Inr t0 \<Rightarrow>
          (case handle_datetime parse False stop of
             Inl e \<Rightarrow> Inl e
           | Inr t1 \<Rightarrow>
               (case (t0, t1) of
                  (Some t0, Some t1) \<Rightarrow>
                    if t1 < t0 then Inl (ValueError ''Timestamps out of order'')
                    else if \<not> ((n = None) \<noteq> (n_s = None)) then
                      Inl (ValueError ''Must specify either n_cm2 or n_cm2_s, not both'')
                    else
                      (case n of
                         None \<Rightarrow>
                           Inr \<lparr>start_time = t0, stop_time = t1, duration = t1 - t0,
                                n_cm2 = the n_s * (t1 - t0), n_cm2_s = n_s\<rparr>
                       | Some v \<Rightarrow>
                           Inr \<lparr>start_time = t0, stop_time = t1, duration = t1 - t0,
                                n_cm2 = v, n_cm2_s = None\<rparr>)
                | _ \<Rightarrow> Inl (TypeError ''unorderable types''))))"

text \<open>
  \<^verbatim>\<open>NeutronIrradiation.activate\<close>. The operands of each product and quotient are
  evaluated from left to right, as Python does, so that the first failure of the
  source is the failure of the model: a fluence rate that is \<^verbatim>\<open>None\<close> cannot be
  multiplied, a missing attribute cannot be read. In the branch with a positive
  duration the divisor is a numpy float, and a zero divisor gives a non-finite
  quotient instead of an exception.
\<close>

definition forward_bq ::
  "date_parser \<Rightarrow> neutron_irradiation \<Rightarrow> real \<Rightarrow> isotope_quantity \<Rightarrow> isotope \<Rightarrow> error + real" where
  "forward_bq parse ni cross_section initial_iso_q activated_iso =
     (if duration ni = 0 then
        (case atoms_at parse initial_iso_q (DateTime (stop_time ni)) of
           Inl e \<Rightarrow> Inl e
         | Inr n0 \<Rightarrow>
             (case iso_decay_const activated_iso of
                None \<Rightarrow> Inl (AttributeError ''decay_const'')
              | Some lam \<Rightarrow> Inr (n_cm2 ni * cross_section * n0 * lam)))
      else
        (case n_cm2_s ni of
           None \<Rightarrow> Inl (TypeError ''unsupported operand type(s) for *'')
         | Some phi \<Rightarrow>
             (case atoms_at parse initial_iso_q (DateTime (stop_time ni)) of
                Inl e \<Rightarrow> Inl e
              | Inr n0 \<Rightarrow>
                  (case iso_decay_const activated_iso of
                     None \<Rightarrow> Inl (AttributeError ''decay_const'')
                   | Some lam \<Rightarrow>
                       Inr (phi * cross_section * n0 * (1 - exp (- lam * duration ni)))))))"

definition backward_atoms ::
  "date_parser \<Rightarrow> neutron_irradiation \<Rightarrow> real \<Rightarrow> isotope_quantity \<Rightarrow> isotope \<Rightarrow> error + real" where
  "backward_atoms parse ni cross_section activated_iso_q activated_iso =
     (if duration ni = 0 then
        (case bq_at parse activated_iso_q (DateTime (stop_time ni)) of
           Inl e \<Rightarrow> Inl e
         | Inr a1 \<Rightarrow>
             (case iso_decay_coeff activated_iso of
                None \<Rightarrow> Inl (AttributeError ''decay_coeff'')
              | Some lam \<Rightarrow>
                  if n_cm2 ni * cross_section * lam = 0 then Inl ZeroDivisionError
                  else Inr (a1 / (n_cm2 ni * cross_section * lam))))
      else
        (case bq_at parse activated_iso_q (DateTime (stop_time ni)) of
           Inl e \<Rightarrow> Inl e
         | Inr a1 \<Rightarrow>
             (case n_cm2_s ni of
                None \<Rightarrow> Inl (TypeError ''unsupported operand type(s) for *'')
              | Some phi \<Rightarrow>
                  (case iso_decay_const activated_iso of
                     None \<Rightarrow> Inl (AttributeError ''decay_const'')
                   | Some lam \<Rightarrow>
                       if phi * cross_section * (1 - exp (- lam * duration ni)) = 0
                       then Inl NonFiniteFloat
                       else Inr (a1 / (phi * cross_section * (1 - exp (- lam * duration ni))))))))"

definition activate ::
  "date_parser \<Rightarrow> datetime \<Rightarrow> neutron_irradiation \<Rightarrow> real \<Rightarrow>
   isotope_quantity option \<Rightarrow> isotope option \<Rightarrow> isotope_quantity option \<Rightarrow> isotope option \<Rightarrow>
   error + isotope_quantity" where
  "activate parse now ni barns initial_iso_q initial_iso activated_iso_q activated_iso =
     (if \<not> ((initial_iso_q = None) \<noteq> (activated_iso_q = None)) then
        Inl (IsotopeError ''Only one IsotopeQuantity should be given'')
      else if initial_iso_q \<noteq> None \<and> activated_iso = None then
        Inl (IsotopeError ''Activated isotope must be specified'')
      else if activated_iso_q \<noteq> None \<and> initial_iso = None then
        Inl (IsotopeError ''Initial isotope must be specified'')
      else
        (let initial_iso' = (case initial_iso of
                               None \<Rightarrow> isotope (the initial_iso_q)
                             | Some i \<Rightarrow> i);
             activated_iso' = (case initial_iso of
                                 None \<Rightarrow> the activated_iso
                               | Some i \<Rightarrow>
                                   (case activated_iso of
                                      None \<Rightarrow> isotope (the activated_iso_q)
                                    | Some a \<Rightarrow> a))
         in
         case iso_halflife initial_iso' of
           None \<Rightarrow> Inl (AttributeError ''halflife'')
         | Some (Finite h) \<Rightarrow>
             Inl (NotImplementedError
                    ''Activation not implemented for a radioactive initial isotope'')
         | Some Infinite \<Rightarrow>
             (let cross_section = barns * (1 / 10 ^ 24) in
              case activated_iso_q of
                None \<Rightarrow>
                  (case forward_bq parse ni cross_section (the initial_iso_q) activated_iso' of
                     Inl e \<Rightarrow> Inl e
                   | Inr activated_bq \<Rightarrow>
                       IsotopeQuantity parse now activated_iso' (DateTime (stop_time ni)) True
                         [''bq'' \<mapsto> activated_bq])
              | Some aq \<Rightarrow>
                  (case backward_atoms parse ni cross_section aq activated_iso' of
                     Inl e \<Rightarrow> Inl e
                   | Inr initial_atoms \<Rightarrow>
                       IsotopeQuantity parse now initial_iso' (DateTime (stop_time ni)) True
                         [''atoms'' \<mapsto> initial_atoms]))))"

section \<open>Sample data\<close>

text \<open>
  Concrete values on which the theorems below are instantiated: technetium-99m with
  its halflife of 21624 seconds and the decay constant that belongs to it, a sample
  of eight atoms of it created at time 0, and a sample of the stable sodium-23.
\<close>

definition Tc99m :: isotope where
  "Tc99m = \<lparr>iso_symbol = ''Tc'', iso_name = ''Technetium'', iso_Z = 43, iso_A = 99,
            iso_m = ''m'', iso_M = 1, iso_N = 56,
            iso_halflife = Some (Finite 21624), iso_decay_const = Some (ln 2 / 21624),
            iso_decay_coeff = None\<rparr>"

definition Tc99m_sample :: isotope_quantity where
  "Tc99m_sample = \<lparr>isotope = Tc99m, halflife = Finite 21624, decay_const = ln 2 / 21624,
                   ref_date = 0, creation_date = True, ref_atoms = 8\<rparr>"

definition Na23 :: isotope where
  "Na23 = \<lparr>iso_symbol = ''Na'', iso_name = ''Sodium'', iso_Z = 11, iso_A = 23,
           iso_m = [], iso_M = 0, iso_N = 12,
           iso_halflife = Some Infinite, iso_decay_const = Some 0,
           iso_decay_coeff = None\<rparr>"

definition stable_sample :: isotope_quantity where
  "stable_sample = \<lparr>isotope = Na23, halflife = Infinite, decay_const = 0,
                   ref_date = 0, creation_date = True, ref_atoms = 8\<rparr>"

text \<open>A parser of date strings that knows two dates, six hours and 24 seconds apart.\<close>

definition date_table :: date_parser where
  "date_table s = (if s = ''2017-01-01 00:00:00'' then Some 0
                   else if s = ''2017-01-01 06:00:24'' then Some 21624 else None)"

text \<open>
  Sodium-24 with its halflife of 53856 seconds, a sample of eight atoms of it, and an
  irradiation of zero duration with a total fluence of 5 neutrons per square
  centimetre.
\<close>

definition Na24 :: isotope where
  "Na24 = \<lparr>iso_symbol = ''Na'', iso_name = ''Sodium'', iso_Z = 11, iso_A = 24,
           iso_m = [], iso_M = 0, iso_N = 13,
           iso_halflife = Some (Finite 53856), iso_decay_const = Some (ln 2 / 53856),
           iso_decay_coeff = None\<rparr>"

definition Na24_sample :: isotope_quantity where
  "Na24_sample = \<lparr>isotope = Na24, halflife = Finite 53856, decay_const = ln 2 / 53856,
                  ref_date = 0, creation_date = True, ref_atoms = 8\<rparr>"

definition pulse :: neutron_irradiation where
  "pulse = \<lparr>start_time = 0, stop_time = 0, duration = 0, n_cm2 = 5, n_cm2_s = None\<rparr>"

text \<open>
  Carbon-14 with a halflife of 5730 years of 365.25 days, and polonium-212 with its
  halflife of 299 nanoseconds, each with a sample of eight atoms created at time 0.
\<close>

definition C14 :: isotope where
  "C14 = \<lparr>iso_symbol = ''C'', iso_name = ''Carbon'', iso_Z = 6, iso_A = 14,
          iso_m = [], iso_M = 0, iso_N = 8,
          iso_halflife = Some (Finite 180825480000),
          iso_decay_const = Some (ln 2 / 180825480000), iso_decay_coeff = None\<rparr>"

definition C14_sample :: isotope_quantity where
  "C14_sample = \<lparr>isotope = C14, halflife = Finite 180825480000,
                 decay_const = ln 2 / 180825480000,
                 ref_date = 0, creation_date = True, ref_atoms = 8\<rparr>"

definition Po212 :: isotope where
  "Po212 = \<lparr>iso_symbol = ''Po'', iso_name = ''Polonium'', iso_Z = 84, iso_A = 212,
            iso_m = [], iso_M = 0, iso_N = 128,
            iso_halflife = Some (Finite (299 / 10 ^ 9)),
            iso_decay_const = Some (ln 2 / (299 / 10 ^ 9)), iso_decay_coeff = None\<rparr>"

definition Po212_sample :: isotope_quantity where
  "Po212_sample = \<lparr>isotope = Po212, halflife = Finite (299 / 10 ^ 9),
                   decay_const = ln 2 / (299 / 10 ^ 9),
                   ref_date = 0, creation_date = True, ref_atoms = 8\<rparr>"

section \<open>Evaluation of a quantity\<close>

lemma atoms_at_normalised:
  assumes "handle_datetime parse False d = Inr (Some t)"
  shows "atoms_at parse q d =
     (if t - ref_date q < 0 \<and> creation_date q
      then Inl (IsotopeError ''The source represented by this IsotopeQuantity was created at'')
      else case decay_exponent (t - ref_date q) (halflife q) of
             Inl e \<Rightarrow> Inl e
           | Inr x \<Rightarrow> Inr (ref_atoms q * 2 powr x))"
  unfolding atoms_at_def assms by (simp add: Let_def)

lemma handle_datetime_native: "handle_datetime parse b (DateTime t) = Inr (Some t)"
  by (simp add: handle_datetime_def)

text \<open>
  C1 (decay law). For a quantity with a finite, non-zero halflife \<open>T\<close> and a date
  that normalises to a time \<open>t\<close> not before the reference date, \<open>atoms_at\<close> returns
  \<open>ref_atoms * 2 powr (- dt / T)\<close> with \<open>dt = t - ref_date\<close>; at the reference date
  it returns \<open>ref_atoms\<close>, and one halflife later \<open>ref_atoms / 2\<close>. For an infinite
  halflife it returns \<open>ref_atoms\<close> at every time at which the quantity can be
  evaluated.
\<close>

theorem atoms_at_decay_law:
  "(halflife q = Finite T \<and> T \<noteq> 0 \<and> handle_datetime parse False d = Inr (Some t) \<and> ref_date q \<le> t
      \<longrightarrow> atoms_at parse q d = Inr (ref_atoms q * 2 powr (- (t - ref_date q) / T)))
   \<and> (halflife q = Finite T \<and> T \<noteq> 0
      \<longrightarrow> atoms_at parse q (DateTime (ref_date q)) = Inr (ref_atoms q))
   \<and> (halflife q = Finite T \<and> 0 < T
      \<longrightarrow> atoms_at parse q (DateTime (ref_date q + T)) = Inr (ref_atoms q / 2))
   \<and> (halflife q' = Infinite \<and> handle_datetime parse False d' = Inr (Some t')
        \<and> (ref_date q' \<le> t' \<or> \<not> creation_date q')
      \<longrightarrow> atoms_at parse q' d' = Inr (ref_atoms q'))"
proof (intro conjI impI)
  assume h: "halflife q = Finite T \<and> T \<noteq> 0 \<and> handle_datetime parse False d = Inr (Some t) \<and> ref_date q \<le> t"
  then have n: "handle_datetime parse False d = Inr (Some t)" and hl: "halflife q = Finite T"
    and T: "T \<noteq> 0" and le: "\<not> t - ref_date q < 0"
    by simp_all
  show "atoms_at parse q d = Inr (ref_atoms q * 2 powr (- (t - ref_date q) / T))"
    unfolding atoms_at_normalised [OF n] decay_exponent_def hl using T le by simp
next
  assume h: "halflife q = Finite T \<and> T \<noteq> 0"
  show "atoms_at parse q (DateTime (ref_date q)) = Inr (ref_atoms q)"
    unfolding atoms_at_normalised [OF handle_datetime_native] decay_exponent_def
    using h by simp
next
  assume h: "halflife q = Finite T \<and> 0 < T"
  then have "- T / T = - 1" by simp
  then have "2 powr (- T / T) = (1 / 2 :: real)"
    by (simp add: powr_minus_divide)
  then show "atoms_at parse q (DateTime (ref_date q + T)) = Inr (ref_atoms q / 2)"
    unfolding atoms_at_normalised [OF handle_datetime_native] decay_exponent_def
    using h by simp
next
  assume h: "halflife q' = Infinite \<and> handle_datetime parse False d' = Inr (Some t')
        \<and> (ref_date q' \<le> t' \<or> \<not> creation_date q')"
  then have n: "handle_datetime parse False d' = Inr (Some t')" by simp
  show "atoms_at parse q' d' = Inr (ref_atoms q')"
    unfolding atoms_at_normalised [OF n] decay_exponent_def
    using h by auto
qed

theorem atoms_at_decay_law_witness:
  "atoms_at (\<lambda>s. None) Tc99m_sample (DateTime 43248) = Inr (8 * 2 powr (- (43248 - 0) / 21624))
   \<and> atoms_at (\<lambda>s. None) Tc99m_sample (DateTime 0) = Inr 8
   \<and> atoms_at (\<lambda>s. None) Tc99m_sample (DateTime 21624) = Inr 4
   \<and> atoms_at (\<lambda>s. None) stable_sample (DateTime 1000) = Inr 8"
  using atoms_at_decay_law [of Tc99m_sample 21624 "\<lambda>s. None" "DateTime 43248" 43248
      stable_sample "DateTime 1000" 1000]
  by (simp add: Tc99m_sample_def stable_sample_def handle_datetime_def)

section \<open>Inversion\<close>

lemma atoms_only: "0 \<le> v \<Longrightarrow> atoms_from_kwargs isot dc [''atoms'' \<mapsto> v] = Inr v"
  by (simp add: atoms_from_kwargs_def check_positive_qty_def)

lemma round_half_even_cases:
  fixes x :: real and f :: int
  assumes "of_int f \<le> x" "x < of_int f + 1"
  shows "\<bar>of_int (if x - of_int f < 1 / 2 then f
                   else if 1 / 2 < x - of_int f then f + 1
                   else if even f then f else f + 1) - x\<bar> \<le> 1 / 2"
  using assms by (auto simp add: abs_if)

lemma round_half_even_error: "\<bar>of_int (round_half_even x) - x\<bar> \<le> 1 / 2"
proof -
  have "of_int \<lfloor>x\<rfloor> \<le> x" "x < of_int \<lfloor>x\<rfloor> + 1" by linarith+
  then show ?thesis
    unfolding round_half_even_def Let_def by (rule round_half_even_cases)
qed

lemma round_half_even_of_int: "round_half_even (of_int n) = n"
  by (simp add: round_half_even_def)

lemma round_half_even_nonneg:
  assumes "0 \<le> x"
  shows "0 \<le> round_half_even x"
proof -
  from assms have f: "0 \<le> \<lfloor>x\<rfloor>" by simp
  have "0 \<le> (if c1 then f else if c2 then f + 1 else if c3 then f else f + 1)"
    if "0 \<le> f" for c1 c2 c3 and f :: int
    using that by simp
  from this [OF f] show ?thesis
    unfolding round_half_even_def Let_def .
qed

lemma time_when_positive_ratio:
  assumes "halflife q = Finite T" "atoms_from_kwargs (isotope q) (decay_const q) kw = Inr target"
    "ref_atoms q \<noteq> 0" "0 < target / ref_atoms q"
  shows "time_when q kw =
           (if - T * log 2 (target / ref_atoms q) < 0 \<and> creation_date q then Inr None
            else case timedelta_seconds (- T * log 2 (target / ref_atoms q)) of
                   Inl e \<Rightarrow> Inl e
                 | Inr delta \<Rightarrow>
                     (case datetime_add (ref_date q) delta of
                        Inl e \<Rightarrow> Inl e
                      | Inr t \<Rightarrow> Inr (Some t)))"
  using assms by (simp add: time_when_def Let_def)

lemma build_date:
  "(case timedelta_seconds dt of
      Inl e \<Rightarrow> Inl e
    | Inr delta \<Rightarrow>
        (case datetime_add d delta of
           Inl e \<Rightarrow> Inl e
         | Inr t \<Rightarrow> Inr (Some t))) =
   (if - 999999999 \<le> round_half_even (dt * 10 ^ 6) div (86400 * 10 ^ 6)
       \<and> round_half_even (dt * 10 ^ 6) div (86400 * 10 ^ 6) \<le> 999999999
       \<and> datetime_min \<le> d + of_int (round_half_even (dt * 10 ^ 6)) / 10 ^ 6
       \<and> d + of_int (round_half_even (dt * 10 ^ 6)) / 10 ^ 6 \<le> datetime_max
    then Inr (Some (d + of_int (round_half_even (dt * 10 ^ 6)) / 10 ^ 6))
    else Inl OverflowError)"
  unfolding timedelta_seconds_def datetime_add_def Let_def
  by (simp add: not_less)

lemma log2_quarter: "log 2 (1 / 4) = - 2"
proof -
  have "(1 / 4 :: real) = 2 powr (- 2)" by (simp add: powr_minus_divide)
  then show ?thesis by (simp only: log_powr_cancel) 
qed

lemma log2_half: "log 2 (1 / 2) = - 1"
proof -
  have "(1 / 2 :: real) = 2 powr (- 1)" by (simp add: powr_minus_divide)
  then show ?thesis by (simp only: log_powr_cancel) 
qed

text \<open>
  C2, as the spec states it, fails in two ways inside its domain. For a sample of
  carbon-14 the date at which a quarter of the atoms is left lies after the year
  9999, and \<open>time_when\<close> raises OverflowError instead of returning a date. For a
  sample of polonium-212 the time at which half of the atoms is left, 299
  nanoseconds, is rounded to zero microseconds: \<open>time_when\<close> returns the reference
  date, at which all eight atoms are left and not the four that were asked for.
\<close>

theorem time_when_overflow_and_rounding:
  "time_when C14_sample [''atoms'' \<mapsto> 2] = Inl OverflowError
   \<and> time_when Po212_sample [''atoms'' \<mapsto> 4] = Inr (Some 0)
   \<and> atoms_at (\<lambda>s. None) Po212_sample (DateTime 0) = Inr 8"
proof -
  have k: "atoms_from_kwargs (isotope C14_sample) (decay_const C14_sample) [''atoms'' \<mapsto> 2]
      = Inr 2"
    by (simp add: atoms_only)
  have dt: "- 180825480000 * log 2 (2 / ref_atoms C14_sample) = 361650960000"
    by (simp add: C14_sample_def log2_quarter)
  have r: "round_half_even (361650960000 * 10 ^ 6) = 361650960000000000"
    using round_half_even_of_int [of 361650960000000000] by simp
  have "time_when C14_sample [''atoms'' \<mapsto> 2] =
      (if - 180825480000 * log 2 (2 / ref_atoms C14_sample) < 0 \<and> creation_date C14_sample
       then Inr None
       else case timedelta_seconds (- 180825480000 * log 2 (2 / ref_atoms C14_sample)) of
              Inl e \<Rightarrow> Inl e
            | Inr delta \<Rightarrow>
                (case datetime_add (ref_date C14_sample) delta of
                   Inl e \<Rightarrow> Inl e
                 | Inr t \<Rightarrow> Inr (Some t)))"
    by (rule time_when_positive_ratio [OF _ k]) (simp_all add: C14_sample_def)
  then have c: "time_when C14_sample [''atoms'' \<mapsto> 2] = Inl OverflowError"
    unfolding dt build_date r
    by (simp add: C14_sample_def datetime_max_def datetime_min_def)
  have k': "atoms_from_kwargs (isotope Po212_sample) (decay_const Po212_sample)
      [''atoms'' \<mapsto> 4] = Inr 4"
    by (simp add: atoms_only)
  have dt': "- (299 / 10 ^ 9) * log 2 (4 / ref_atoms Po212_sample) = 299 / 10 ^ 9"
    by (simp add: Po212_sample_def log2_half)
  have r': "round_half_even (299 / 10 ^ 9 * 10 ^ 6) = 0"
    by (simp add: round_half_even_def)
  have "time_when Po212_sample [''atoms'' \<mapsto> 4] =
      (if - (299 / 10 ^ 9) * log 2 (4 / ref_atoms Po212_sample) < 0
          \<and> creation_date Po212_sample
       then Inr None
       else case timedelta_seconds (- (299 / 10 ^ 9) * log 2 (4 / ref_atoms Po212_sample)) of
              Inl e \<Rightarrow> Inl e
            | Inr delta \<Rightarrow>
                (case datetime_add (ref_date Po212_sample) delta of
                   Inl e \<Rightarrow> Inl e
                 | Inr t \<Rightarrow> Inr (Some t)))"
    by (rule time_when_positive_ratio [OF _ k']) (simp_all add: Po212_sample_def)
  then have p: "time_when Po212_sample [''atoms'' \<mapsto> 4] = Inr (Some 0)"
    unfolding dt' build_date r'
    by (simp add: Po212_sample_def datetime_max_def datetime_min_def)
  have a: "atoms_at (\<lambda>s. None) Po212_sample (DateTime 0) = Inr 8"
    unfolding atoms_at_normalised [OF handle_datetime_native] decay_exponent_def
    by (simp add: Po212_sample_def)
  from c p a show ?thesis by simp
qed

text \<open>
  C2 (inversion and evaluation), amended. For a quantity with a finite, non-zero
  halflife \<open>T\<close> and a target \<open>0 < target \<le> ref_atoms\<close>, with
  \<open>dt = - T * log 2 (target / ref_atoms)\<close> the solved elapsed time: \<open>time_when\<close>
  called with \<^verbatim>\<open>atoms=target\<close> returns \<^verbatim>\<open>None\<close> exactly when \<open>dt\<close> is negative and
  \<open>creation_date\<close> is set. Otherwise it returns the reference date plus \<open>dt\<close> rounded to
  whole microseconds when that is within the range of \<^verbatim>\<open>timedelta\<close> and of
  \<^verbatim>\<open>datetime\<close>, and raises OverflowError when it is not. Whenever it returns a date,
  the date is within half a microsecond of the solved one and \<open>atoms_at\<close> at it is
  \<open>target\<close> times 2 to the power of the error of the date over \<open>T\<close>; it is exactly
  \<open>target\<close> when \<open>dt\<close> is a whole number of microseconds.
\<close>

theorem time_when_round_trip:
  assumes hl: "halflife q = Finite T" and T: "T \<noteq> 0"
    and pos: "0 < target" and le: "target \<le> ref_atoms q"
  shows "((time_when q [''atoms'' \<mapsto> target] = Inr None)
            = (- T * log 2 (target / ref_atoms q) < 0 \<and> creation_date q))
       \<and> (\<not> (- T * log 2 (target / ref_atoms q) < 0 \<and> creation_date q) \<longrightarrow>
            time_when q [''atoms'' \<mapsto> target] =
              (if - 999999999 \<le>
                    round_half_even (- T * log 2 (target / ref_atoms q) * 10 ^ 6)
                      div (86400 * 10 ^ 6)
                  \<and> round_half_even (- T * log 2 (target / ref_atoms q) * 10 ^ 6)
                      div (86400 * 10 ^ 6) \<le> 999999999
                  \<and> datetime_min \<le> ref_date q
                      + of_int (round_half_even (- T * log 2 (target / ref_atoms q) * 10 ^ 6))
                        / 10 ^ 6
                  \<and> ref_date q
                      + of_int (round_half_even (- T * log 2 (target / ref_atoms q) * 10 ^ 6))
                        / 10 ^ 6 \<le> datetime_max
               then Inr (Some (ref_date q
                      + of_int (round_half_even (- T * log 2 (target / ref_atoms q) * 10 ^ 6))
                        / 10 ^ 6))
               else Inl OverflowError))
       \<and> (\<forall>t. time_when q [''atoms'' \<mapsto> target] = Inr (Some t) \<longrightarrow>
              \<bar>t - (ref_date q + - T * log 2 (target / ref_atoms q))\<bar> \<le> 1 / (2 * 10 ^ 6)
              \<and> atoms_at parse q (DateTime t) =
                  Inr (target
                       * 2 powr ((ref_date q + - T * log 2 (target / ref_atoms q) - t) / T)))
       \<and> ((\<exists>k :: int. - T * log 2 (target / ref_atoms q) * 10 ^ 6 = of_int k) \<longrightarrow>
            (\<forall>t. time_when q [''atoms'' \<mapsto> target] = Inr (Some t) \<longrightarrow>
               atoms_at parse q (DateTime t) = Inr target))"
proof -
  let ?r = "target / ref_atoms q"
  let ?dt = "- T * log 2 ?r"
  let ?us = "round_half_even (?dt * 10 ^ 6)"
  let ?ok = "- 999999999 \<le> ?us div (86400 * 10 ^ 6) \<and> ?us div (86400 * 10 ^ 6) \<le> 999999999
             \<and> datetime_min \<le> ref_date q + of_int ?us / 10 ^ 6
             \<and> ref_date q + of_int ?us / 10 ^ 6 \<le> datetime_max"
  let ?tw = "time_when q [''atoms'' \<mapsto> target]"
  from pos le have ref: "0 < ref_atoms q" by simp
  with pos have r: "0 < ?r" by simp
  have kw: "atoms_from_kwargs (isotope q) (decay_const q) [''atoms'' \<mapsto> target] = Inr target"
    using pos by (simp add: atoms_only)
  have tw: "?tw = (if ?dt < 0 \<and> creation_date q then Inr None
                   else if ?ok then Inr (Some (ref_date q + of_int ?us / 10 ^ 6))
                   else Inl OverflowError)"
    using time_when_positive_ratio [OF hl kw _ r] ref
    unfolding build_date by simp
  have none: "(?tw = Inr None) = (?dt < 0 \<and> creation_date q)"
    unfolding tw by simp
  have built: "?tw = (if ?ok then Inr (Some (ref_date q + of_int ?us / 10 ^ 6))
                      else Inl OverflowError)"
    if "\<not> (?dt < 0 \<and> creation_date q)"
    by (rule trans [OF tw if_not_P [OF that]])
  have val: "ref_atoms q * 2 powr (- ?dt / T) = target"
  proof -
    have "- ?dt / T = log 2 ?r" using T by simp
    moreover have "2 powr (log 2 ?r) = ?r" using r by simp
    ultimately show ?thesis using ref by simp
  qed
  have err: "\<bar>of_int ?us / 10 ^ 6 - ?dt\<bar> \<le> 1 / (2 * 10 ^ 6)"
  proof -
    have "\<bar>of_int ?us - ?dt * 10 ^ 6\<bar> \<le> 1 / 2" by (rule round_half_even_error)
    then have "\<bar>of_int ?us - ?dt * 10 ^ 6\<bar> / 10 ^ 6 \<le> 1 / 2 / 10 ^ 6"
      by (simp add: divide_right_mono)
    moreover have "\<bar>of_int ?us - ?dt * 10 ^ 6\<bar> / 10 ^ 6 = \<bar>of_int ?us / 10 ^ 6 - ?dt\<bar>"
    proof -
      have "of_int ?us / 10 ^ 6 - ?dt = (of_int ?us - ?dt * 10 ^ 6) / 10 ^ 6"
        by (simp add: diff_divide_distrib)
      then show ?thesis by (simp only: abs_divide) simp
    qed
    ultimately show ?thesis by simp
  qed
  have at: "\<bar>t - (ref_date q + ?dt)\<bar> \<le> 1 / (2 * 10 ^ 6)
            \<and> atoms_at parse q (DateTime t) = Inr (target * 2 powr ((ref_date q + ?dt - t) / T))"
    if some: "?tw = Inr (Some t)" for t
  proof -
    from some tw have ok: "\<not> (?dt < 0 \<and> creation_date q)"
      and t: "t = ref_date q + of_int ?us / 10 ^ 6"
      by (auto split: if_splits)
    have e: "t - (ref_date q + ?dt) = of_int ?us / 10 ^ 6 - ?dt" unfolding t by simp
    have nn: "\<not> (t - ref_date q < 0 \<and> creation_date q)"
    proof
      assume a: "t - ref_date q < 0 \<and> creation_date q"
      with ok have "0 \<le> ?dt" by simp
      then have "0 \<le> ?dt * 10 ^ 6" by simp
      then have "0 \<le> ?us" by (rule round_half_even_nonneg)
      then have "0 \<le> t - ref_date q" unfolding t by simp
      with a show False by simp
    qed
    have "atoms_at parse q (DateTime t) = Inr (ref_atoms q * 2 powr (- (t - ref_date q) / T))"
      unfolding atoms_at_normalised [OF handle_datetime_native] decay_exponent_def hl
      using nn T by auto
    moreover have "- (t - ref_date q) / T = - ?dt / T + (ref_date q + ?dt - t) / T"
    proof -
      have "- ?dt / T + (ref_date q + ?dt - t) / T = (- ?dt + (ref_date q + ?dt - t)) / T"
        by (rule add_divide_distrib [symmetric])
      also have "- ?dt + (ref_date q + ?dt - t) = - (t - ref_date q)" by simp
      finally show ?thesis by simp
    qed
    ultimately have "atoms_at parse q (DateTime t) =
        Inr (ref_atoms q * 2 powr (- ?dt / T) * 2 powr ((ref_date q + ?dt - t) / T))"
      by (simp only: powr_add mult.assoc)
    then have b2: "atoms_at parse q (DateTime t) =
        Inr (target * 2 powr ((ref_date q + ?dt - t) / T))"
      unfolding val .
    have b1: "\<bar>t - (ref_date q + ?dt)\<bar> \<le> 1 / (2 * 10 ^ 6)"
      unfolding e by (rule err)
    from b1 b2 show ?thesis ..
  qed
  have exact: "atoms_at parse q (DateTime t) = Inr target"
    if k: "\<exists>k :: int. ?dt * 10 ^ 6 = of_int k" and some: "?tw = Inr (Some t)" for t
  proof -
    from k obtain k :: int where k: "?dt * 10 ^ 6 = of_int k" ..
    then have us: "?us = k" by (simp only: round_half_even_of_int)
    from k have "?dt = of_int k / 10 ^ 6" by (simp add: field_simps)
    with us have d: "of_int ?us / 10 ^ 6 = ?dt" by simp
    from some tw have "t = ref_date q + of_int ?us / 10 ^ 6"
      by (auto split: if_splits)
    with d have "ref_date q + ?dt - t = 0" by simp
    with at [OF some] show ?thesis by simp
  qed
  from none built at exact show ?thesis by blast
qed

theorem time_when_round_trip_witness:
  "time_when Tc99m_sample [''atoms'' \<mapsto> 2] = Inr (Some 43248)
   \<and> atoms_at (\<lambda>s. None) Tc99m_sample (DateTime 43248) = Inr 2"
proof -
  have h: "halflife Tc99m_sample = Finite 21624" "(21624 :: real) \<noteq> 0" "(0 :: real) < 2"
    "2 \<le> ref_atoms Tc99m_sample"
    by (simp_all add: Tc99m_sample_def)
  have e: "- 21624 * log 2 (2 / ref_atoms Tc99m_sample) = 43248"
    by (simp add: Tc99m_sample_def log2_quarter)
  have r: "ref_date Tc99m_sample = 0" "creation_date Tc99m_sample"
    by (simp_all add: Tc99m_sample_def)
  have u: "round_half_even (43248 * 10 ^ 6) = 43248000000"
    using round_half_even_of_int [of 43248000000] by simp
  have k: "\<exists>k :: int. (43248 :: real) * 10 ^ 6 = of_int k"
    by (rule exI [of _ 43248000000]) simp
  from time_when_round_trip [OF h, of "\<lambda>s. None"] k show ?thesis
    unfolding e r u by (simp add: datetime_min_def datetime_max_def)
qed

section \<open>Temporal order\<close>

text \<open>
  C7 (temporal order). For a quantity with \<open>creation_date\<close> set: at a date that
  normalises to a time strictly before the reference date, \<open>atoms_at\<close>, \<open>bq_at\<close>,
  \<open>uci_at\<close> and \<open>g_at\<close> all raise IsotopeError; and \<open>time_when\<close>, when the halflife is
  finite, the keywords give a target, and the solved \<open>dt\<close> is negative, returns
  \<^verbatim>\<open>None\<close> and does not raise.
\<close>

theorem evaluation_before_creation:
  assumes cd: "creation_date q"
  shows "(handle_datetime parse False d = Inr (Some t) \<and> t < ref_date q \<longrightarrow>
            atoms_at parse q d =
              Inl (IsotopeError ''The source represented by this IsotopeQuantity was created at'')
          \<and> bq_at parse q d =
              Inl (IsotopeError ''The source represented by this IsotopeQuantity was created at'')
          \<and> uci_at parse q d =
              Inl (IsotopeError ''The source represented by this IsotopeQuantity was created at'')
          \<and> g_at parse q d =
              Inl (IsotopeError ''The source represented by this IsotopeQuantity was created at''))
       \<and> (halflife q = Finite T
            \<and> atoms_from_kwargs (isotope q) (decay_const q) kw = Inr target
            \<and> ref_atoms q \<noteq> 0 \<and> 0 < target / ref_atoms q
            \<and> - T * log 2 (target / ref_atoms q) < 0 \<longrightarrow>
            time_when q kw = Inr None)"
proof (intro conjI impI)
  assume h: "handle_datetime parse False d = Inr (Some t) \<and> t < ref_date q"
  then have n: "handle_datetime parse False d = Inr (Some t)" and lt: "t - ref_date q < 0"
    by simp_all
  show a: "atoms_at parse q d =
      Inl (IsotopeError ''The source represented by this IsotopeQuantity was created at'')"
    unfolding atoms_at_normalised [OF n] using lt cd by simp
  show b: "bq_at parse q d =
      Inl (IsotopeError ''The source represented by this IsotopeQuantity was created at'')"
    unfolding bq_at_def a by simp
  show "uci_at parse q d =
      Inl (IsotopeError ''The source represented by this IsotopeQuantity was created at'')"
    unfolding uci_at_def b by simp
  show "g_at parse q d =
      Inl (IsotopeError ''The source represented by this IsotopeQuantity was created at'')"
    unfolding g_at_def a by simp
next
  assume h: "halflife q = Finite T
            \<and> atoms_from_kwargs (isotope q) (decay_const q) kw = Inr target
            \<and> ref_atoms q \<noteq> 0 \<and> 0 < target / ref_atoms q
            \<and> - T * log 2 (target / ref_atoms q) < 0"
  then have tw: "time_when q kw =
           (if - T * log 2 (target / ref_atoms q) < 0 \<and> creation_date q then Inr None
            else case timedelta_seconds (- T * log 2 (target / ref_atoms q)) of
                   Inl e \<Rightarrow> Inl e
                 | Inr delta \<Rightarrow>
                     (case datetime_add (ref_date q) delta of
                        Inl e \<Rightarrow> Inl e
                      | Inr t \<Rightarrow> Inr (Some t)))"
    by (intro time_when_positive_ratio) simp_all
  from h cd have "- T * log 2 (target / ref_atoms q) < 0 \<and> creation_date q"
    by simp
  then show "time_when q kw = Inr None"
    by (rule trans [OF tw if_P])
qed

theorem evaluation_before_creation_witness:
  "atoms_at date_table Tc99m_sample (DateTime (- 1)) =
     Inl (IsotopeError ''The source represented by this IsotopeQuantity was created at'')
   \<and> bq_at date_table Tc99m_sample (DateTime (- 1)) =
     Inl (IsotopeError ''The source represented by this IsotopeQuantity was created at'')
   \<and> uci_at date_table Tc99m_sample (DateTime (- 1)) =
     Inl (IsotopeError ''The source represented by this IsotopeQuantity was created at'')
   \<and> g_at date_table Tc99m_sample (DateTime (- 1)) =
     Inl (IsotopeError ''The source represented by this IsotopeQuantity was created at'')
   \<and> time_when Tc99m_sample [''atoms'' \<mapsto> 16] = Inr None"
proof -
  have cd: "creation_date Tc99m_sample" by (simp add: Tc99m_sample_def)
  have kw: "atoms_from_kwargs (isotope Tc99m_sample) (decay_const Tc99m_sample)
              [''atoms'' \<mapsto> 16] = Inr 16"
    by (simp add: atoms_only)
  have h: "halflife Tc99m_sample = Finite 21624" "ref_atoms Tc99m_sample \<noteq> 0"
    "0 < 16 / ref_atoms Tc99m_sample" "- 21624 * log 2 (16 / ref_atoms Tc99m_sample) < 0"
    "(- 1) < ref_date Tc99m_sample"
    by (simp_all add: Tc99m_sample_def)
  from evaluation_before_creation [OF cd, of date_table "DateTime (- 1)" "- 1" 21624
      "[''atoms'' \<mapsto> 16]" 16] kw h
  show ?thesis by (simp add: handle_datetime_native)
qed

section \<open>Average activity over an interval\<close>

text \<open>
  C10 (raw interval of \<open>bq_from\<close> and \<open>uci_from\<close>). \<open>atoms_at\<close> and \<open>decays_from\<close>
  normalise their arguments, so a date string that parses is as good as the native
  value. \<open>bq_from\<close> and \<open>uci_from\<close> subtract the raw arguments: with a string for
  either argument they raise TypeError even where \<open>decays_from\<close> has a value, and
  with twice the same native value they raise ZeroDivisionError wherever the
  quantity can be evaluated at that time. With two different native values they
  return the decays of \<open>decays_from\<close> divided by the difference of the two values
  (and \<open>uci_from\<close> that activity divided by \<open>UCI_TO_BQ\<close>).
\<close>

theorem bq_from_raw_interval:
  "(parse s1 = Some t1 \<and> parse s2 = Some t2 \<longrightarrow>
      atoms_at parse q (DateStr s1) = atoms_at parse q (DateTime t1)
      \<and> decays_from parse q (DateStr s1) (DateStr s2)
          = decays_from parse q (DateTime t1) (DateTime t2))
   \<and> (decays_from parse q (DateStr s1) b = Inr d1 \<longrightarrow>
        bq_from parse q (DateStr s1) b = Inl (TypeError ''unsupported operand type(s) for -'')
        \<and> uci_from parse q (DateStr s1) b = Inl (TypeError ''unsupported operand type(s) for -''))
   \<and> (decays_from parse q a (DateStr s2) = Inr d2 \<longrightarrow>
        bq_from parse q a (DateStr s2) = Inl (TypeError ''unsupported operand type(s) for -'')
        \<and> uci_from parse q a (DateStr s2) = Inl (TypeError ''unsupported operand type(s) for -''))
   \<and> (atoms_at parse q (DateTime t) = Inr n \<longrightarrow>
        decays_from parse q (DateTime t) (DateTime t) = Inr 0
        \<and> bq_from parse q (DateTime t) (DateTime t) = Inl ZeroDivisionError
        \<and> uci_from parse q (DateTime t) (DateTime t) = Inl ZeroDivisionError)
   \<and> (decays_from parse q (DateTime u0) (DateTime u1) = Inr d3 \<and> u1 \<noteq> u0 \<longrightarrow>
        bq_from parse q (DateTime u0) (DateTime u1) = Inr (d3 / (u1 - u0))
        \<and> uci_from parse q (DateTime u0) (DateTime u1) = Inr (d3 / (u1 - u0) / UCI_TO_BQ))"
proof (intro conjI impI)
  assume p: "parse s1 = Some t1 \<and> parse s2 = Some t2"
  then have n: "handle_datetime parse False (DateStr s1) = Inr (Some t1)"
    "handle_datetime parse False (DateStr s2) = Inr (Some t2)"
    by (simp_all add: handle_datetime_def)
  show a: "atoms_at parse q (DateStr s1) = atoms_at parse q (DateTime t1)"
    unfolding atoms_at_normalised [OF n(1)] atoms_at_normalised [OF handle_datetime_native] ..
  have b: "atoms_at parse q (DateStr s2) = atoms_at parse q (DateTime t2)"
    unfolding atoms_at_normalised [OF n(2)] atoms_at_normalised [OF handle_datetime_native] ..
  show "decays_from parse q (DateStr s1) (DateStr s2)
          = decays_from parse q (DateTime t1) (DateTime t2)"
    unfolding decays_from_def a b ..
next
  assume d: "decays_from parse q (DateStr s1) b = Inr d1"
  have r: "raw_seconds b (DateStr s1) = Inl (TypeError ''unsupported operand type(s) for -'')"
    by (simp add: raw_seconds_def split: date_arg.splits)
  show e: "bq_from parse q (DateStr s1) b = Inl (TypeError ''unsupported operand type(s) for -'')"
    unfolding bq_from_def d r by simp
  show "uci_from parse q (DateStr s1) b = Inl (TypeError ''unsupported operand type(s) for -'')"
    unfolding uci_from_def e by simp
next
  assume d: "decays_from parse q a (DateStr s2) = Inr d2"
  have r: "raw_seconds (DateStr s2) a = Inl (TypeError ''unsupported operand type(s) for -'')"
    by (simp add: raw_seconds_def)
  show e: "bq_from parse q a (DateStr s2) = Inl (TypeError ''unsupported operand type(s) for -'')"
    unfolding bq_from_def d r by simp
  show "uci_from parse q a (DateStr s2) = Inl (TypeError ''unsupported operand type(s) for -'')"
    unfolding uci_from_def e by simp
next
  assume a: "atoms_at parse q (DateTime t) = Inr n"
  show d: "decays_from parse q (DateTime t) (DateTime t) = Inr 0"
    unfolding decays_from_def a by simp
  show e: "bq_from parse q (DateTime t) (DateTime t) = Inl ZeroDivisionError"
    unfolding bq_from_def d by (simp add: raw_seconds_def)
  show "uci_from parse q (DateTime t) (DateTime t) = Inl ZeroDivisionError"
    unfolding uci_from_def e by simp
next
  assume h: "decays_from parse q (DateTime u0) (DateTime u1) = Inr d3 \<and> u1 \<noteq> u0"
  then have d: "decays_from parse q (DateTime u0) (DateTime u1) = Inr d3" by simp
  have r: "raw_seconds (DateTime u1) (DateTime u0) = Inr (u1 - u0)"
    by (simp add: raw_seconds_def)
  show e: "bq_from parse q (DateTime u0) (DateTime u1) = Inr (d3 / (u1 - u0))"
    unfolding bq_from_def d r using h by simp
  show "uci_from parse q (DateTime u0) (DateTime u1) = Inr (d3 / (u1 - u0) / UCI_TO_BQ)"
    unfolding uci_from_def e by simp
qed

theorem bq_from_raw_interval_witness:
  "decays_from date_table Tc99m_sample (DateStr ''2017-01-01 00:00:00'')
      (DateStr ''2017-01-01 06:00:24'') = Inr 4
   \<and> bq_from date_table Tc99m_sample (DateStr ''2017-01-01 00:00:00'')
      (DateStr ''2017-01-01 06:00:24'') = Inl (TypeError ''unsupported operand type(s) for -'')
   \<and> uci_from date_table Tc99m_sample (DateStr ''2017-01-01 00:00:00'')
      (DateStr ''2017-01-01 06:00:24'') = Inl (TypeError ''unsupported operand type(s) for -'')
   \<and> bq_from date_table Tc99m_sample (DateTime 0) (DateTime 21624) = Inr (4 / 21624)
   \<and> uci_from date_table Tc99m_sample (DateTime 0) (DateTime 21624)
      = Inr (4 / 21624 / UCI_TO_BQ)
   \<and> bq_from date_table Tc99m_sample (DateTime 0) (DateTime 0) = Inl ZeroDivisionError
   \<and> uci_from date_table Tc99m_sample (DateTime 0) (DateTime 0) = Inl ZeroDivisionError"
proof -
  have a0: "atoms_at date_table Tc99m_sample (DateTime 0) = Inr 8"
    unfolding atoms_at_normalised [OF handle_datetime_native] decay_exponent_def
    by (simp add: Tc99m_sample_def)
  have a1: "atoms_at date_table Tc99m_sample (DateTime 21624) = Inr 4"
    unfolding atoms_at_normalised [OF handle_datetime_native] decay_exponent_def
    by (simp add: Tc99m_sample_def powr_minus_divide)
  have d: "decays_from date_table Tc99m_sample (DateTime 0) (DateTime 21624) = Inr 4"
    unfolding decays_from_def a0 a1 by simp
  have p: "date_table ''2017-01-01 00:00:00'' = Some 0 \<and> date_table ''2017-01-01 06:00:24'' = Some 21624"
    by (simp add: date_table_def)
  note w = bq_from_raw_interval [where parse = date_table and ?s1.0 = "''2017-01-01 00:00:00''"
      and ?t1.0 = 0 and ?s2.0 = "''2017-01-01 06:00:24''" and ?t2.0 = 21624
      and q = Tc99m_sample and b = "DateStr ''2017-01-01 06:00:24''" and ?d1.0 = 4
      and a = "DateStr ''2017-01-01 00:00:00''" and ?d2.0 = 4 and t = 0 and n = 8
      and ?u0.0 = 0 and ?u1.0 = 21624 and ?d3.0 = 4]
  from w p d a0 show ?thesis by simp
qed

section \<open>Quantities of a stable isotope\<close>

lemma stable_from_zero:
  assumes "decay_data_ok isot" "iso_decay_const isot = Some 0"
  shows "iso_halflife isot = Some Infinite"
proof (cases "iso_halflife isot")
  case None
  with assms show ?thesis by (simp add: decay_data_ok_def)
next
  case (Some hl)
  show ?thesis
  proof (cases hl)
    case (Finite h)
    with Some assms show ?thesis by (auto simp add: decay_data_ok_def)
  next
    case Infinite
    with Some show ?thesis by simp
  qed
qed

lemma activity_of_stable:
  assumes "''atoms'' \<notin> dom kw" "''g'' \<notin> dom kw" "''bq'' \<in> dom kw \<or> ''uci'' \<in> dom kw"
  shows "atoms_from_kwargs isot 0 kw =
           Inl (IsotopeError ''Cannot initialize a stable IsotopeQuantity from activity'')"
  using assms unfolding atoms_from_kwargs_def by simp

lemma atoms_from_kwargs_needs_keyword:
  assumes "atoms_from_kwargs isot 0 kw = Inr n"
  shows "''atoms'' \<in> dom kw \<or> ''g'' \<in> dom kw"
  using assms unfolding atoms_from_kwargs_def by (simp split: if_splits)

lemma IsotopeQuantity_present:
  assumes "iso_halflife isot = Some hl" "iso_decay_const isot = Some dc"
    "handle_datetime parse True date = Inr d"
  shows "IsotopeQuantity parse now isot date cd kw =
     (case atoms_from_kwargs isot dc kw of
        Inl e \<Rightarrow> Inl e
      | Inr n \<Rightarrow> Inr \<lparr>isotope = isot, halflife = hl, decay_const = dc,
                      ref_date = (case d of None \<Rightarrow> now | Some t \<Rightarrow> t),
                      creation_date = cd, ref_atoms = n\<rparr>)"
  unfolding IsotopeQuantity_def assms by simp

lemma IsotopeQuantity_fields:
  assumes "IsotopeQuantity parse now isot date cd kw = Inr q"
  shows "iso_halflife isot = Some (halflife q) \<and> iso_decay_const isot = Some (decay_const q)
         \<and> isotope q = isot \<and> creation_date q = cd
         \<and> atoms_from_kwargs isot (decay_const q) kw = Inr (ref_atoms q)"
  using assms unfolding IsotopeQuantity_def
  by (auto split: option.splits sum.splits)

text \<open>
  C5 (stable-isotope guard). For an isotope whose decay data are consistent and whose
  decay constant is 0: constructing a quantity from keywords that give an activity
  (\<^verbatim>\<open>bq\<close> or \<^verbatim>\<open>uci\<close>, and neither \<^verbatim>\<open>atoms\<close> nor \<^verbatim>\<open>g\<close>) raises the IsotopeError
  for a stable isotope; a construction that succeeds was given \<^verbatim>\<open>atoms\<close> or \<^verbatim>\<open>g\<close>;
  and \<open>time_when\<close> on a quantity constructed for that isotope raises the IsotopeError
  for a stable isotope, whatever its keywords.
\<close>

theorem stable_isotope_guard:
  assumes ok: "decay_data_ok isot" and z: "iso_decay_const isot = Some 0"
  shows "(handle_datetime parse True date = Inr d \<and> ''atoms'' \<notin> dom kw \<and> ''g'' \<notin> dom kw
            \<and> (''bq'' \<in> dom kw \<or> ''uci'' \<in> dom kw) \<longrightarrow>
          IsotopeQuantity parse now isot date cd kw =
            Inl (IsotopeError ''Cannot initialize a stable IsotopeQuantity from activity''))
       \<and> (IsotopeQuantity parse now isot date' cd' kw' = Inr q \<longrightarrow>
            (''atoms'' \<in> dom kw' \<or> ''g'' \<in> dom kw')
            \<and> time_when q kw'' =
                Inl (IsotopeError ''Cannot calculate time_when for stable isotope''))"
proof (intro conjI impI)
  note hl = stable_from_zero [OF ok z]
  assume h: "handle_datetime parse True date = Inr d \<and> ''atoms'' \<notin> dom kw \<and> ''g'' \<notin> dom kw
            \<and> (''bq'' \<in> dom kw \<or> ''uci'' \<in> dom kw)"
  then have n: "handle_datetime parse True date = Inr d" by simp
  from h have "atoms_from_kwargs isot 0 kw =
           Inl (IsotopeError ''Cannot initialize a stable IsotopeQuantity from activity'')"
    by (intro activity_of_stable) simp_all
  then show "IsotopeQuantity parse now isot date cd kw =
            Inl (IsotopeError ''Cannot initialize a stable IsotopeQuantity from activity'')"
    unfolding IsotopeQuantity_present [OF hl z n] by simp
next
  assume c: "IsotopeQuantity parse now isot date' cd' kw' = Inr q"
  note f = IsotopeQuantity_fields [OF c]
  from f z have "decay_const q = 0" by simp
  with f have "atoms_from_kwargs isot 0 kw' = Inr (ref_atoms q)" by metis
  then show "''atoms'' \<in> dom kw' \<or> ''g'' \<in> dom kw'"
    by (rule atoms_from_kwargs_needs_keyword)
next
  assume c: "IsotopeQuantity parse now isot date' cd' kw' = Inr q"
  note f = IsotopeQuantity_fields [OF c]
  from f stable_from_zero [OF ok z] have "halflife q = Infinite" by simp
  then show "time_when q kw'' = Inl (IsotopeError ''Cannot calculate time_when for stable isotope'')"
    by (simp add: time_when_def)
qed

theorem stable_isotope_guard_witness:
  "IsotopeQuantity (\<lambda>s. None) 0 Na23 NoDate True [''bq'' \<mapsto> 5] =
     Inl (IsotopeError ''Cannot initialize a stable IsotopeQuantity from activity'')
   \<and> IsotopeQuantity (\<lambda>s. None) 0 Na23 NoDate True [''atoms'' \<mapsto> 8] = Inr stable_sample
   \<and> time_when stable_sample [''atoms'' \<mapsto> 4] =
     Inl (IsotopeError ''Cannot calculate time_when for stable isotope'')"
proof -
  have ok: "decay_data_ok Na23" and z: "iso_decay_const Na23 = Some 0"
    by (simp_all add: decay_data_ok_def Na23_def)
  have c: "IsotopeQuantity (\<lambda>s. None) 0 Na23 NoDate True [''atoms'' \<mapsto> 8] = Inr stable_sample"
    by (simp add: IsotopeQuantity_def Na23_def handle_datetime_def atoms_only stable_sample_def)
  have n: "handle_datetime (\<lambda>s. None) True NoDate = Inr None"
    by (simp add: handle_datetime_def)
  from stable_isotope_guard [OF ok z, of "\<lambda>s. None" NoDate None "[''bq'' \<mapsto> 5]" 0 True
      NoDate True "[''atoms'' \<mapsto> 8]" stable_sample "[''atoms'' \<mapsto> 4]"] c n
  show ?thesis by simp
qed

section \<open>The keywords of a quantity\<close>




section \<open>Construction of an irradiation\<close>

text \<open>
  C8, as the spec states it, fails: when the total fluence is the supplied field,
  the fluence rate is not derived from it and the duration, it is left \<^verbatim>\<open>None\<close>.
\<close>

theorem fluence_rate_not_derived:
  "NeutronIrradiation (\<lambda>s. None) (DateTime 0) (DateTime 10) (Some 5) None =
     Inr \<lparr>start_time = 0, stop_time = 10, duration = 10, n_cm2 = 5, n_cm2_s = None\<rparr>"
  by (simp add: NeutronIrradiation_def handle_datetime_def)

text \<open>
  C8 (construction of an irradiation), amended. With both times accepted by the
  normalisation: a stop before the start raises ValueError; otherwise both or
  neither of \<^verbatim>\<open>n_cm2\<close> and \<^verbatim>\<open>n_cm2_s\<close> raises ValueError; otherwise the duration
  is stop minus start in seconds, and with \<^verbatim>\<open>n_cm2_s\<close> supplied \<^verbatim>\<open>n_cm2\<close> is
  \<^verbatim>\<open>n_cm2_s * duration\<close>, while with \<^verbatim>\<open>n_cm2\<close> supplied \<^verbatim>\<open>n_cm2_s\<close> is \<^verbatim>\<open>None\<close>.
\<close>

theorem irradiation_construction:
  "(handle_datetime parse False start' = Inr (Some t0') \<and>
    handle_datetime parse False stop' = Inr (Some t1') \<and> t1' < t0' \<longrightarrow>
      NeutronIrradiation parse start' stop' n' n_s' = Inl (ValueError ''Timestamps out of order''))
   \<and> (handle_datetime parse False start = Inr (Some t0) \<and>
      handle_datetime parse False stop = Inr (Some t1) \<and> t0 \<le> t1 \<longrightarrow>
        (((n = None) = (n_s = None)) \<longrightarrow>
           NeutronIrradiation parse start stop n n_s =
             Inl (ValueError ''Must specify either n_cm2 or n_cm2_s, not both''))
      \<and> NeutronIrradiation parse start stop None (Some phi) =
          Inr \<lparr>start_time = t0, stop_time = t1, duration = t1 - t0,
               n_cm2 = phi * (t1 - t0), n_cm2_s = Some phi\<rparr>
      \<and> NeutronIrradiation parse start stop (Some v) None =
          Inr \<lparr>start_time = t0, stop_time = t1, duration = t1 - t0,
               n_cm2 = v, n_cm2_s = None\<rparr>)"
proof (intro conjI impI)
  assume "handle_datetime parse False start' = Inr (Some t0') \<and>
    handle_datetime parse False stop' = Inr (Some t1') \<and> t1' < t0'"
  then show "NeutronIrradiation parse start' stop' n' n_s' = Inl (ValueError ''Timestamps out of order'')"
    by (simp add: NeutronIrradiation_def)
next
  assume "handle_datetime parse False start = Inr (Some t0) \<and>
      handle_datetime parse False stop = Inr (Some t1) \<and> t0 \<le> t1"
    and "(n = None) = (n_s = None)"
  then show "NeutronIrradiation parse start stop n n_s =
             Inl (ValueError ''Must specify either n_cm2 or n_cm2_s, not both'')"
    by (simp add: NeutronIrradiation_def)
next
  assume "handle_datetime parse False start = Inr (Some t0) \<and>
      handle_datetime parse False stop = Inr (Some t1) \<and> t0 \<le> t1"
  then show "NeutronIrradiation parse start stop None (Some phi) =
          Inr \<lparr>start_time = t0, stop_time = t1, duration = t1 - t0,
               n_cm2 = phi * (t1 - t0), n_cm2_s = Some phi\<rparr>"
    by (simp add: NeutronIrradiation_def)
next
  assume "handle_datetime parse False start = Inr (Some t0) \<and>
      handle_datetime parse False stop = Inr (Some t1) \<and> t0 \<le> t1"
  then show "NeutronIrradiation parse start stop (Some v) None =
          Inr \<lparr>start_time = t0, stop_time = t1, duration = t1 - t0,
               n_cm2 = v, n_cm2_s = None\<rparr>"
    by (simp add: NeutronIrradiation_def)
qed

theorem irradiation_construction_witness:
  "NeutronIrradiation date_table (DateTime 10) (DateTime 0) (Some 5) None =
      Inl (ValueError ''Timestamps out of order'')
   \<and> NeutronIrradiation date_table (DateStr ''2017-01-01 00:00:00'') (DateTime 10)
        (Some 5) (Some 1) = Inl (ValueError ''Must specify either n_cm2 or n_cm2_s, not both'')
   \<and> NeutronIrradiation date_table (DateStr ''2017-01-01 00:00:00'') (DateTime 10)
        None (Some 3) =
      Inr \<lparr>start_time = 0, stop_time = 10, duration = 10, n_cm2 = 30, n_cm2_s = Some 3\<rparr>
   \<and> NeutronIrradiation date_table (DateStr ''2017-01-01 00:00:00'') (DateTime 10)
        (Some 5) None =
      Inr \<lparr>start_time = 0, stop_time = 10, duration = 10, n_cm2 = 5, n_cm2_s = None\<rparr>"
  using irradiation_construction [of date_table "DateTime 10" 10 "DateTime 0" 0 "Some 5" None
      "DateStr ''2017-01-01 00:00:00''" 0 "DateTime 10" 10 "Some 5" "Some 1" 3 5]
  by (simp add: handle_datetime_def date_table_def)

section \<open>Activation\<close>

text \<open>
  The constructor of an isotope sets none of the decay attributes, and nothing in the
  module sets \<^verbatim>\<open>decay_coeff\<close>.
\<close>

lemma Isotope_sets_no_decay_data:
  assumes "Isotope lookup args = Inr i"
  shows "iso_halflife i = None \<and> iso_decay_const i = None \<and> iso_decay_coeff i = None"
proof -
  have f: "finish elem a mM = Inr i \<Longrightarrow> ?thesis" for elem a mM
    by (auto simp add: finish_def split: if_splits)
  from assms show ?thesis
    unfolding Isotope_def
    by (auto split: if_splits pyval.splits sum.splits option.splits prod.splits dest: f)
qed

lemma atoms_at_ref_date:
  assumes "halflife q = Infinite \<or> (\<exists>h. halflife q = Finite h \<and> h \<noteq> 0)"
  shows "atoms_at parse q (DateTime (ref_date q)) = Inr (ref_atoms q)"
  unfolding atoms_at_normalised [OF handle_datetime_native] decay_exponent_def
  using assms by auto

lemma round_trip_with_decay_coeff:
  assumes d: "duration ni = 0" and n: "0 < n_cm2 ni" and s: "0 < barns"
    and i0: "iso_halflife i0 = Some Infinite" "iso_decay_const i0 = Some dc0"
    and a: "iso_halflife a = Some (Finite h)" "h \<noteq> 0" "iso_decay_const a = Some lam"
      "iso_decay_coeff a = Some lam" "0 < lam"
    and A1: "bq_at parse aq (DateTime (stop_time ni)) = Inr A1" "0 \<le> A1"
  shows "\<exists>q0 q1. activate parse now ni barns None (Some i0) (Some aq) (Some a) = Inr q0
        \<and> activate parse now ni barns (Some q0) None None (Some a) = Inr q1
        \<and> bq_at parse q1 (DateTime (stop_time ni)) = Inr A1"
proof -
  define cs where "cs = barns * (1 / 10 ^ 24)"
  define N0 where "N0 = A1 / (n_cm2 ni * cs * lam)"
  define q0 where "q0 = \<lparr>isotope = i0, halflife = Infinite, decay_const = dc0,
      ref_date = stop_time ni, creation_date = True, ref_atoms = N0\<rparr>"
  define q1 where "q1 = \<lparr>isotope = a, halflife = Finite h, decay_const = lam,
      ref_date = stop_time ni, creation_date = True, ref_atoms = A1 / lam\<rparr>"
  from s have cs: "0 < cs" by (simp add: cs_def)
  with n a(5) have k: "0 < n_cm2 ni * cs * lam" by simp
  with A1(2) have N0: "0 \<le> N0" by (simp add: N0_def)
  have b: "backward_atoms parse ni cs aq a = Inr N0"
    using d a(4) n cs a(5) A1(1) by (simp add: backward_atoms_def N0_def)
  have c0: "IsotopeQuantity parse now i0 (DateTime (stop_time ni)) True [''atoms'' \<mapsto> N0] = Inr q0"
    unfolding IsotopeQuantity_present [OF i0 handle_datetime_native] atoms_only [OF N0]
    by (simp add: q0_def)
  have bwd: "activate parse now ni barns None (Some i0) (Some aq) (Some a) = Inr q0"
    unfolding activate_def using i0(1) b c0 by (simp add: cs_def)
  have at0: "atoms_at parse q0 (DateTime (stop_time ni)) = Inr N0"
    using atoms_at_ref_date [of q0 parse] by (simp add: q0_def)
  have f: "forward_bq parse ni cs q0 a = Inr (n_cm2 ni * cs * N0 * lam)"
    using d a(3) at0 by (simp add: forward_bq_def)
  have v: "n_cm2 ni * cs * N0 * lam = A1"
    using n cs a(5) by (simp add: N0_def)
  have kw: "atoms_from_kwargs a lam [''bq'' \<mapsto> A1] = Inr (A1 / lam)"
    using a(5) A1(2) by (simp add: atoms_from_kwargs_def check_positive_qty_def)
  have c1: "IsotopeQuantity parse now a (DateTime (stop_time ni)) True [''bq'' \<mapsto> A1] = Inr q1"
    unfolding IsotopeQuantity_present [OF a(1) a(3) handle_datetime_native] kw
    by (simp add: q1_def)
  have fwd: "activate parse now ni barns (Some q0) None None (Some a) = Inr q1"
    unfolding activate_def using i0(1) f v c1 by (simp add: cs_def q0_def)
  have at1: "atoms_at parse q1 (DateTime (stop_time ni)) = Inr (A1 / lam)"
    using atoms_at_ref_date [of q1 parse] a(2) by (simp add: q1_def)
  have "bq_at parse q1 (DateTime (stop_time ni)) = Inr A1"
    unfolding bq_at_def at1 using a(5) by (simp add: q1_def)
  with bwd fwd show ?thesis by blast
qed

lemma backward_atoms_no_decay_coeff:
  assumes "duration ni = 0" "iso_decay_coeff a = None"
  shows "backward_atoms parse ni cs aq a =
           (case bq_at parse aq (DateTime (stop_time ni)) of
              Inl e \<Rightarrow> Inl e
            | Inr a1 \<Rightarrow> Inl (AttributeError ''decay_coeff''))"
  using assms by (simp add: backward_atoms_def split: sum.splits)

text \<open>
  C3 (activation round trip). The backward calculation of a zero-duration irradiation
  reads the attribute \<^verbatim>\<open>decay_coeff\<close> of the activated isotope. Whenever that attribute
  is missing, as it is on every isotope that has only the attributes the class
  documents, the backward call returns no quantity: the round trip of the claim cannot
  start. (\<open>round_trip_with_decay_coeff\<close> above shows that the round trip does hold once
  the attribute exists and equals the decay constant.)
\<close>

theorem backward_zero_duration_fails:
  assumes d: "duration ni = 0"
    and c: "iso_decay_coeff (case activated_iso of None \<Rightarrow> isotope aq | Some a \<Rightarrow> a) = None"
  shows "activate parse now ni barns None initial_iso (Some aq) activated_iso \<noteq> Inr q"
proof (cases initial_iso)
  case None
  then show ?thesis by (simp add: activate_def)
next
  case (Some i0)
  let ?a = "case activated_iso of None \<Rightarrow> isotope aq | Some a \<Rightarrow> a"
  have b: "backward_atoms parse ni cs aq ?a \<noteq> Inr x" for cs x
    unfolding backward_atoms_no_decay_coeff [OF d c] by (simp split: sum.splits)
  show ?thesis
  proof (cases "iso_halflife i0")
    case None
    with Some show ?thesis by (simp add: activate_def)
  next
    case hl: (Some h)
    show ?thesis
    proof (cases h)
      case (Finite x)
      with Some hl show ?thesis by (simp add: activate_def)
    next
      case Infinite
      with Some hl have "activate parse now ni barns None initial_iso (Some aq) activated_iso =
          (case backward_atoms parse ni (barns * (1 / 10 ^ 24)) aq ?a of
             Inl e \<Rightarrow> Inl e
           | Inr initial_atoms \<Rightarrow>
               IsotopeQuantity parse now i0 (DateTime (stop_time ni)) True
                 [''atoms'' \<mapsto> initial_atoms])"
        by (simp add: activate_def Let_def cong: option.case_cong sum.case_cong)
      with b [of "barns * (1 / 10 ^ 24)"] show ?thesis
        by (simp split: sum.splits)
    qed
  qed
qed

theorem backward_zero_duration_fails_witness:
  "NeutronIrradiation (\<lambda>s. None) (DateTime 0) (DateTime 0) (Some 5) None = Inr pulse
   \<and> bq_at (\<lambda>s. None) Na24_sample (DateTime 0) = Inr (8 * (ln 2 / 53856))
   \<and> activate (\<lambda>s. None) 0 pulse 1 None (Some Na23) (Some Na24_sample) None
       = Inl (AttributeError ''decay_coeff'')"
proof -
  have n: "NeutronIrradiation (\<lambda>s. None) (DateTime 0) (DateTime 0) (Some 5) None = Inr pulse"
    by (simp add: NeutronIrradiation_def handle_datetime_def pulse_def)
  have a: "atoms_at (\<lambda>s. None) Na24_sample (DateTime 0) = Inr 8"
    unfolding atoms_at_normalised [OF handle_datetime_native] decay_exponent_def
    by (simp add: Na24_sample_def)
  have bq: "bq_at (\<lambda>s. None) Na24_sample (DateTime 0) = Inr (8 * (ln 2 / 53856))"
    unfolding bq_at_def a by (simp add: Na24_sample_def)
  have d: "duration pulse = 0" "stop_time pulse = 0" by (simp_all add: pulse_def)
  have c: "iso_decay_coeff (case None of None \<Rightarrow> isotope Na24_sample | Some a \<Rightarrow> a) = None"
    by (simp add: Na24_sample_def Na24_def)
  have c': "iso_decay_coeff (isotope Na24_sample) = None"
    by (simp add: Na24_sample_def Na24_def)
  have b: "backward_atoms (\<lambda>s. None) pulse cs Na24_sample (isotope Na24_sample)
      = Inl (AttributeError ''decay_coeff'')" for cs
    unfolding backward_atoms_no_decay_coeff [OF d(1) c'] d(2) bq by simp
  have e: "activate (\<lambda>s. None) 0 pulse 1 None (Some Na23) (Some Na24_sample) None
       = Inl (AttributeError ''decay_coeff'')"
    unfolding activate_def by (simp add: Na23_def b)
  from backward_zero_duration_fails [OF d(1) c, of "\<lambda>s. None" 0 1 "Some Na23"] n bq e
  show ?thesis by simp
qed

section \<open>The representation of an isotope\<close>

text \<open>
  What every construction establishes: the mass number is at least 1, the neutron
  number is the mass number less the atomic number and is not negative, and the
  isomer level is not negative. An isomer given as an integer has the code that the
  encoding rule prescribes.
\<close>

lemma init_A_ge: "init_A v = Inr a \<Longrightarrow> 1 \<le> a"
  by (auto simp add: init_A_def split: sum.splits error.splits if_splits)

lemma init_m_ge: "init_m v = Inr mM \<Longrightarrow> 0 \<le> snd mM"
  by (auto simp add: init_m_def Let_def split: pyval.splits if_splits)

lemma finish_invariant:
  assumes "finish elem a mM = Inr i" "1 \<le> a" "0 \<le> snd mM"
  shows "1 \<le> iso_A i \<and> iso_N i = iso_A i - iso_Z i \<and> 0 \<le> iso_N i \<and> 0 \<le> iso_M i"
  using assms by (auto simp add: finish_def split: if_splits)

lemma Isotope_numeric_invariant:
  assumes "Isotope lookup args = Inr i"
  shows "1 \<le> iso_A i \<and> iso_N i = iso_A i - iso_Z i \<and> 0 \<le> iso_N i \<and> 0 \<le> iso_M i"
proof -
  have f: "finish elem a mM = Inr i \<Longrightarrow> init_A v = Inr a \<Longrightarrow> 0 \<le> snd mM \<Longrightarrow> ?thesis"
    for elem a mM v
    using finish_invariant init_A_ge by blast
  from assms show ?thesis
    unfolding Isotope_def
    by (auto split: if_splits pyval.splits sum.splits option.splits prod.splits
        dest: f init_m_ge)
qed

lemma init_m_int_canonical:
  assumes "init_m (PyInt n) = Inr (m_code, level)"
  shows "isomer_code_ok m_code level"
  using assms by (auto simp add: init_m_def isomer_code_ok_def split: if_splits)

text \<open>
  C9 (representation invariant). The numeric part of the invariant holds, but the
  isomer code and the isomer level do not correspond under the encoding rule on
  every construction path: an isomer given as a string keeps the string as its code.
  The string \<^verbatim>\<open>Tc-99m1\<close> is constructed with level 1 and the code \<^verbatim>\<open>m1\<close>, where the
  rule has \<^verbatim>\<open>m\<close> (and the integer 1 does give \<^verbatim>\<open>m\<close>); the isomer string \<^verbatim>\<open>m0\<close> is
  constructed with level 0 and the code \<^verbatim>\<open>m0\<close>, where the rule has the empty code.
\<close>

theorem isomer_code_not_canonical:
  "Isotope Element [PyStr ''Tc-99m1''] =
     Inr \<lparr>iso_symbol = ''Tc'', iso_name = ''Technetium'', iso_Z = 43, iso_A = 99,
          iso_m = ''m1'', iso_M = 1, iso_N = 56,
          iso_halflife = None, iso_decay_const = None, iso_decay_coeff = None\<rparr>
   \<and> Isotope Element [PyStr ''Tc'', PyInt 99, PyStr ''m0''] =
     Inr \<lparr>iso_symbol = ''Tc'', iso_name = ''Technetium'', iso_Z = 43, iso_A = 99,
          iso_m = ''m0'', iso_M = 0, iso_N = 56,
          iso_halflife = None, iso_decay_const = None, iso_decay_coeff = None\<rparr>
   \<and> Isotope Element [PyStr ''Tc'', PyInt 99, PyInt 1] =
     Inr \<lparr>iso_symbol = ''Tc'', iso_name = ''Technetium'', iso_Z = 43, iso_A = 99,
          iso_m = ''m'', iso_M = 1, iso_N = 56,
          iso_halflife = None, iso_decay_const = None, iso_decay_coeff = None\<rparr>
   \<and> \<not> isomer_code_ok ''m1'' 1 \<and> \<not> isomer_code_ok ''m0'' 0"
  by code_simp

section \<open>The choice among the candidates of the parser\<close>

text \<open>
  What the second loop of \<^verbatim>\<open>_split_element_mass\<close> selects: a candidate whose symbol,
  as returned by the lookup, is at least as long as that of every candidate. Without
  a candidate the split fails. The three examples of the spec parse as it says.
\<close>

lemma choose_longest_is_longest:
  "(choose_longest cs best = best \<or> choose_longest cs best \<in> set cs)
   \<and> length (fst best) \<le> length (fst (choose_longest cs best))
   \<and> (\<forall>c \<in> set cs. length (fst c) \<le> length (fst (choose_longest cs best)))"
proof (induction cs best rule: choose_longest.induct)
  case (1 best)
  then show ?case by simp
next
  case (2 elem mass cs element_id mass_isomer)
  show ?case
  proof (cases "length element_id < length elem")
    case True
    let ?r = "choose_longest cs (elem, mass)"
    have eq: "choose_longest ((elem, mass) # cs) (element_id, mass_isomer) = ?r"
      using True by simp
    from 2(1) [OF True] have a: "?r = (elem, mass) \<or> ?r \<in> set cs"
      and b: "length elem \<le> length (fst ?r)"
      and c: "\<forall>c \<in> set cs. length (fst c) \<le> length (fst ?r)"
      by simp_all
    from a have "?r \<in> set ((elem, mass) # cs)" by auto
    moreover from b True have "length (fst (element_id, mass_isomer)) \<le> length (fst ?r)"
      by simp
    moreover from b c have "\<forall>c \<in> set ((elem, mass) # cs). length (fst c) \<le> length (fst ?r)"
      by simp
    ultimately show ?thesis unfolding eq by blast
  next
    case False
    let ?r = "choose_longest cs (element_id, mass_isomer)"
    have eq: "choose_longest ((elem, mass) # cs) (element_id, mass_isomer) = ?r"
      using False by simp
    from 2(2) [OF False] have a: "?r = (element_id, mass_isomer) \<or> ?r \<in> set cs"
      and b: "length element_id \<le> length (fst ?r)"
      and c: "\<forall>c \<in> set cs. length (fst c) \<le> length (fst ?r)"
      by simp_all
    from a have "?r = (element_id, mass_isomer) \<or> ?r \<in> set ((elem, mass) # cs)" by auto
    moreover from b have "length (fst (element_id, mass_isomer)) \<le> length (fst ?r)"
      by simp
    moreover from b c False
    have "\<forall>c \<in> set ((elem, mass) # cs). length (fst c) \<le> length (fst ?r)"
      by simp
    ultimately show ?thesis unfolding eq by blast
  qed
qed

lemma split_nohyphen_no_candidate:
  assumes "candidates lookup (split_points arg) = []"
  shows "split_nohyphen lookup arg = Inl (IsotopeError ''Could not find element for isotope'')"
  using assms by (simp add: split_nohyphen_def)

lemma split_nohyphen_symbol_longest:
  assumes "split_nohyphen lookup arg = Inr r"
  shows "(r \<in> set (candidates lookup (split_points arg)) \<or> fst r = [])
         \<and> (\<forall>c \<in> set (candidates lookup (split_points arg)). length (fst c) \<le> length (fst r))"
proof -
  from assms have r: "r = choose_longest (candidates lookup (split_points arg)) ([], [])"
    by (simp add: split_nohyphen_def Let_def split: if_splits)
  from choose_longest_is_longest [of "candidates lookup (split_points arg)" "([], [])"]
  show ?thesis unfolding r by auto
qed

lemma parse_isotope_examples:
  "parse_isotope Element ''238U'' = Inr (''U'', 238, [])"
  "parse_isotope Element ''Tc-99m'' = Inr (''Tc'', 99, ''m'')"
  "parse_isotope Element ''178M2HF'' = Inr (''Hf'', 178, ''m2'')"
  by code_simp+

text \<open>
  C4 (longest match). The parser does not select the candidate whose element token
  is longest: it compares the symbols that the lookup returns, not the tokens that
  were looked up. In \<^verbatim>\<open>131Iodine\<close> two splits resolve, the token \<^verbatim>\<open>Iodine\<close> with the
  mass \<^verbatim>\<open>131\<close> and the token \<^verbatim>\<open>ne\<close> with the rest; the symbol \<^verbatim>\<open>Ne\<close> of the shorter
  token is longer than the symbol \<^verbatim>\<open>I\<close> of the longer one and wins, and the parse
  then fails on the mass \<^verbatim>\<open>131Iodi\<close>. The same isotope written with a hyphen or
  with the element first is parsed.
\<close>

theorem longest_token_not_selected:
  "candidates Element (split_points ''131Iodine'') = [(''I'', ''131''), (''Ne'', ''131Iodi'')]
   \<and> split_element_mass Element ''131Iodine'' = Inr (''Ne'', ''131Iodi'')
   \<and> parse_isotope Element ''131Iodine'' =
       Inl (IsotopeError ''Mass number cannot be converted to int'')
   \<and> parse_isotope Element ''131-Iodine'' = Inr (''Iodine'', 131, [])
   \<and> parse_isotope Element ''Iodine131'' = Inr (''I'', 131, [])"
  by code_simp

end
